theory Spec2Isabelle
  imports Complex_Main "HOL-Library.AList" "HOL-Library.Multiset"
begin

section \<open>Request data\<close>

text \<open>
  The expense router (the second module of \<^verbatim>\<open>src/backend/index.js\<close>) reads a JSON
  body (\<^verbatim>\<open>req.body\<close>, produced by \<^verbatim>\<open>express.json()\<close>), a query object
  (\<^verbatim>\<open>req.query\<close>), a route parameter (\<^verbatim>\<open>req.params.id\<close>, a string) and the
  caller's id (\<^verbatim>\<open>req.user._id\<close>, set by the \<^verbatim>\<open>auth\<close> middleware, whose module is
  not among the sources: the handlers below take the caller's id as an argument).

  A JSON number is an IEEE double in the program; it is modelled by the real it
  stands for. Where the program computes with doubles (the sums, the averages and the
  balance of the summary) the results are doubles again, see \<open>to_double\<close> below. An
  object is the list of its entries, read with \<open>map_of\<close> (a parsed object has one
  entry per key).
\<close>

datatype json =
    JNull
  | JBool bool
  | JNum real
  | JStr string
  | JArr "json list"
  | JObj "(string \<times> json) list"

text \<open>Property access \<^verbatim>\<open>j.k\<close>; \<open>None\<close> is \<^verbatim>\<open>undefined\<close>.\<close>

definition js_get :: "json \<Rightarrow> string \<Rightarrow> json option" where
  "js_get j k = (case j of JObj kvs \<Rightarrow> map_of kvs k | _ \<Rightarrow> None)"

text \<open>
  The value of an id path. Mongoose casts the JSON \<^verbatim>\<open>null\<close> to \<^verbatim>\<open>null\<close>, which
  is no ObjectId but can be stored where one is expected.
\<close>

datatype oid = ObjectId string | NullId

text \<open>A \<^verbatim>\<open>Date\<close> that is not \<^verbatim>\<open>Invalid Date\<close>: milliseconds since the epoch.\<close>

type_synonym timestamp = int

datatype etype = Income | Expense

text \<open>A JavaScript number: \<^verbatim>\<open>NaN\<close>, an infinity, or a finite double.\<close>

datatype jsnum = NaN | PosInf | NegInf | Fin real

section \<open>The expense collection\<close>

text \<open>
  \<^verbatim>\<open>ExpenseSchema\<close> (\<^verbatim>\<open>src/unnamed/part_000\<close>): title, description, amount, date,
  type (an enum, required) and userId (an ObjectId, required), with the \<^verbatim>\<open>_id\<close> every
  document has. The version key \<^verbatim>\<open>__v\<close> is not modelled. The collection is the list of
  its documents in insertion order.
\<close>

record expense =
  doc_id :: oid
  title :: string
  description :: string
  amount :: real
  date :: "timestamp option"
  type :: etype
  userId :: oid

datatype error = CastError | ValidationError | DuplicateKey | ImmutableField | QueryError

text \<open>
  What a handler hands to mongoose is a JavaScript object whose values are raw JSON
  from the request, an ObjectId (\<^verbatim>\<open>req.user._id\<close>) or a \<^verbatim>\<open>Date\<close>
  (\<^verbatim>\<open>new Date()\<close>).
\<close>

datatype jsval = Json json | ObjId oid | DateVal timestamp

type_synonym object = "(string \<times> jsval) list"

section \<open>The runtime: library code and environment outside the repository\<close>

text \<open>
  The handlers call into zod, mongoose and the JavaScript runtime. The conversions
  whose rules are long and version dependent are parameters of the model; every
  theorem holds for all of them.
  \<^item> \<open>Number_js\<close>: \<^verbatim>\<open>Number(v)\<close>, used by \<^verbatim>\<open>z.coerce.number()\<close>;
  \<^item> \<open>Date_js\<close>: \<^verbatim>\<open>new Date(v)\<close>, used by \<^verbatim>\<open>z.coerce.date()\<close>; \<open>None\<close> is
    \<^verbatim>\<open>Invalid Date\<close>;
  \<^item> \<open>castDate\<close>: mongoose's cast of a raw value to a \<^verbatim>\<open>Date\<close> path; \<open>None\<close> is a
    \<^verbatim>\<open>CastError\<close>, \<open>Some None\<close> is \<^verbatim>\<open>null\<close>;
  \<^item> \<open>castObjectId\<close>: mongoose's cast of a raw value to an \<^verbatim>\<open>ObjectId\<close> path;
    \<open>None\<close> is a \<^verbatim>\<open>CastError\<close>;
  \<^item> \<open>fractionalLimit\<close>: what \<^verbatim>\<open>.limit(l)\<close> does for an \<open>l\<close> that is no whole
    number: \<open>None\<close> when the query is refused, else the number of documents returned;
  \<^item> \<open>otherUpdate\<close>: what mongoose and the store make of an update object that has an
    update operator (a key that starts with \<^verbatim>\<open>$\<close>) or a dotted key: \<open>None\<close> when the
    update is refused before the query runs, else what it does to the matched document;
  \<^item> \<open>nearest\<close>: the double a real is rounded to (an infinity past the range of the
    doubles), for a real that is not a whole number of at most 53 bits;
  \<^item> \<open>sum_store\<close>, \<open>avg_store\<close>: the store's \<^verbatim>\<open>$sum\<close> and \<^verbatim>\<open>$avg\<close> of a list
    of numbers, where rounding can enter;
  \<^item> \<open>newObjectId\<close>: the id mongoose generates for the \<open>n\<close>-th document built during
    the request;
  \<^item> \<open>now\<close>: \<^verbatim>\<open>new Date()\<close>.
\<close>

record runtime =
  Number_js :: "json \<Rightarrow> jsnum"
  Date_js :: "json \<Rightarrow> timestamp option"
  castDate :: "json \<Rightarrow> timestamp option option"
  castObjectId :: "json \<Rightarrow> oid option"
  fractionalLimit :: "real \<Rightarrow> nat option"
  otherUpdate :: "(string \<times> jsval) list \<Rightarrow> (expense \<Rightarrow> error + expense) option"
  nearest :: "real \<Rightarrow> jsnum"
  sum_store :: "real list \<Rightarrow> jsnum"
  avg_store :: "real list \<Rightarrow> jsnum"
  newObjectId :: "nat \<Rightarrow> oid"
  now :: timestamp

section \<open>The validation layer\<close>

text \<open>
  \<^verbatim>\<open>schema.safeParse(v)\<close> gives the issues of the whole value, not only the first;
  an issue is the path of the offending part and a code (the codes of zod 3). An object
  schema is not strict: a key the schema does not name is no issue.
\<close>

datatype seg = Key string | Idx nat

datatype code = invalid_type | too_small | too_big | invalid_enum_value | invalid_date

type_synonym issue = "seg list \<times> code"

text \<open>\<^verbatim>\<open>z.string().min(1)\<close>\<close>

definition z_string_min1 :: "seg list \<Rightarrow> json option \<Rightarrow> issue list" where
  "z_string_min1 p x =
     (case x of
        Some (JStr s) \<Rightarrow> (if length s < 1 then [(p, too_small)] else [])
      | _ \<Rightarrow> [(p, invalid_type)])"

text \<open>\<^verbatim>\<open>z.number().positive()\<close>\<close>

definition z_number_positive :: "seg list \<Rightarrow> json option \<Rightarrow> issue list" where
  "z_number_positive p x =
     (case x of
        Some (JNum a) \<Rightarrow> (if a \<le> 0 then [(p, too_small)] else [])
      | _ \<Rightarrow> [(p, invalid_type)])"

text \<open>\<^verbatim>\<open>z.coerce.date()\<close>: \<^verbatim>\<open>new Date(undefined)\<close> is \<^verbatim>\<open>Invalid Date\<close>.\<close>

definition coerce_date :: "runtime \<Rightarrow> json option \<Rightarrow> timestamp option" where
  "coerce_date rt x = (case x of None \<Rightarrow> None | Some j \<Rightarrow> Date_js rt j)"

definition z_coerce_date :: "runtime \<Rightarrow> seg list \<Rightarrow> json option \<Rightarrow> issue list" where
  "z_coerce_date rt p x =
     (case coerce_date rt x of None \<Rightarrow> [(p, invalid_date)] | Some t \<Rightarrow> [])"

text \<open>\<^verbatim>\<open>z.enum(['income', 'expense'])\<close>\<close>

definition enum_value :: "json option \<Rightarrow> etype option" where
  "enum_value x =
     (case x of
        Some (JStr s) \<Rightarrow>
          (if s = ''income'' then Some Income
           else if s = ''expense'' then Some Expense else None)
      | _ \<Rightarrow> None)"

definition z_enum :: "seg list \<Rightarrow> json option \<Rightarrow> issue list" where
  "z_enum p x =
     (case x of
        Some (JStr s) \<Rightarrow>
          (if s = ''income'' \<or> s = ''expense'' then [] else [(p, invalid_enum_value)])
      | _ \<Rightarrow> [(p, invalid_type)])"

text \<open>\<^verbatim>\<open>.optional()\<close>: \<^verbatim>\<open>undefined\<close> passes, anything else goes to the inner schema.\<close>

definition z_optional ::
  "(seg list \<Rightarrow> json option \<Rightarrow> issue list) \<Rightarrow> seg list \<Rightarrow> json option \<Rightarrow> issue list" where
  "z_optional inner p x = (case x of None \<Rightarrow> [] | Some j \<Rightarrow> inner p x)"

text \<open>The object schema of \<^verbatim>\<open>POST /add\<close>, also the element schema of \<^verbatim>\<open>POST /add/bulk\<close>.\<close>

definition expense_schema :: "runtime \<Rightarrow> seg list \<Rightarrow> json option \<Rightarrow> issue list" where
  "expense_schema rt p x =
     (case x of
        Some (JObj kvs) \<Rightarrow>
          z_string_min1 (p @ [Key ''title'']) (map_of kvs ''title'')
          @ z_string_min1 (p @ [Key ''description'']) (map_of kvs ''description'')
          @ z_number_positive (p @ [Key ''amount'']) (map_of kvs ''amount'')
          @ z_coerce_date rt (p @ [Key ''date'']) (map_of kvs ''date'')
          @ z_enum (p @ [Key ''type'']) (map_of kvs ''type'')
      | _ \<Rightarrow> [(p, invalid_type)])"

text \<open>\<^verbatim>\<open>z.array(element).min(1).max(100)\<close>: the length checks, then every element.\<close>

definition z_array_1_100 ::
  "(seg list \<Rightarrow> json option \<Rightarrow> issue list) \<Rightarrow> seg list \<Rightarrow> json option \<Rightarrow> issue list" where
  "z_array_1_100 element p x =
     (case x of
        Some (JArr es) \<Rightarrow>
          (if length es < 1 then [(p, too_small)] else [])
          @ (if length es > 100 then [(p, too_big)] else [])
          @ concat (map (\<lambda>(i, e). element (p @ [Idx i]) (Some e)) (enumerate 0 es))
      | _ \<Rightarrow> [(p, invalid_type)])"

text \<open>The body schema of \<^verbatim>\<open>POST /add/bulk\<close>.\<close>

definition bulk_schema :: "runtime \<Rightarrow> json \<Rightarrow> issue list" where
  "bulk_schema rt b =
     (case b of
        JObj kvs \<Rightarrow> z_array_1_100 (expense_schema rt) [Key ''expenses''] (map_of kvs ''expenses'')
      | _ \<Rightarrow> [([], invalid_type)])"

text \<open>\<^verbatim>\<open>z.string()\<close>, and the body schema of \<^verbatim>\<open>DELETE /bulk\<close>.\<close>

definition z_string :: "seg list \<Rightarrow> json option \<Rightarrow> issue list" where
  "z_string p x = (case x of Some (JStr s) \<Rightarrow> [] | _ \<Rightarrow> [(p, invalid_type)])"

definition bulk_delete_schema :: "json \<Rightarrow> issue list" where
  "bulk_delete_schema b =
     (case b of
        JObj kvs \<Rightarrow> z_array_1_100 z_string [Key ''expenseIds''] (map_of kvs ''expenseIds'')
      | _ \<Rightarrow> [([], invalid_type)])"

text \<open>The body schema of \<^verbatim>\<open>PUT /:id\<close>: every field optional.\<close>

definition update_schema :: "runtime \<Rightarrow> json \<Rightarrow> issue list" where
  "update_schema rt b =
     (case b of
        JObj kvs \<Rightarrow>
          z_optional z_string_min1 [Key ''title''] (map_of kvs ''title'')
          @ z_optional z_string_min1 [Key ''description''] (map_of kvs ''description'')
          @ z_optional z_number_positive [Key ''amount''] (map_of kvs ''amount'')
          @ z_optional (z_coerce_date rt) [Key ''date''] (map_of kvs ''date'')
          @ z_optional z_enum [Key ''type''] (map_of kvs ''type'')
      | _ \<Rightarrow> [([], invalid_type)])"

text \<open>
  \<^verbatim>\<open>z.coerce.number().positive().max(50).default(10)\<close>: the default stands in for
  \<^verbatim>\<open>undefined\<close>; any other input goes through \<^verbatim>\<open>Number\<close> and the two checks.
\<close>

definition z_limit :: "runtime \<Rightarrow> seg list \<Rightarrow> json option \<Rightarrow> issue list + real" where
  "z_limit rt p x =
     (case x of
        None \<Rightarrow> Inr 10
      | Some j \<Rightarrow>
          (case Number_js rt j of
             NaN \<Rightarrow> Inl [(p, invalid_type)]
           | PosInf \<Rightarrow> Inl [(p, too_big)]
           | NegInf \<Rightarrow> Inl [(p, too_small)]
           | Fin r \<Rightarrow>
               (if r \<le> 0 then Inl [(p, too_small)]
                else if r > 50 then Inl [(p, too_big)]
                else Inr r)))"

text \<open>The query schema of \<^verbatim>\<open>GET /top\<close>; the parsed data are \<open>(limit, type)\<close>.\<close>

definition top_query :: "runtime \<Rightarrow> json \<Rightarrow> issue list + (real \<times> etype option)" where
  "top_query rt q =
     (case q of
        JObj kvs \<Rightarrow>
          (case (z_limit rt [Key ''limit''] (map_of kvs ''limit''),
                 z_optional z_enum [Key ''type''] (map_of kvs ''type'')) of
             (Inr l, []) \<Rightarrow> Inr (l, enum_value (map_of kvs ''type''))
           | (Inr l, is) \<Rightarrow> Inl is
           | (Inl ls, is) \<Rightarrow> Inl (ls @ is))
      | _ \<Rightarrow> Inl [([], invalid_type)])"

text \<open>
  The query schema of \<^verbatim>\<open>GET /stats/summary\<close>; the parsed data are
  \<open>(startDate, endDate)\<close>, each \<open>None\<close> when the parameter is absent.
\<close>

definition summary_query ::
  "runtime \<Rightarrow> json \<Rightarrow> issue list + (timestamp option \<times> timestamp option)" where
  "summary_query rt q =
     (case q of
        JObj kvs \<Rightarrow>
          (case z_optional (z_coerce_date rt) [Key ''startDate''] (map_of kvs ''startDate'')
                @ z_optional (z_coerce_date rt) [Key ''endDate''] (map_of kvs ''endDate'') of
             [] \<Rightarrow> Inr (coerce_date rt (map_of kvs ''startDate''),
                        coerce_date rt (map_of kvs ''endDate''))
           | is \<Rightarrow> Inl is)
      | _ \<Rightarrow> Inl [([], invalid_type)])"

section \<open>The persistence collaborator\<close>

text \<open>The spread \<^verbatim>\<open>{...j}\<close> of a JSON object (the schemas let nothing else through).\<close>

definition spread :: "json \<Rightarrow> object" where
  "spread j = (case j of JObj kvs \<Rightarrow> map (\<lambda>(k, v). (k, Json v)) kvs | _ \<Rightarrow> [])"

text \<open>
  Mongoose's casts to the schema types. Behind the schemas a title, a description, an
  amount and a type arrive as a string, a number and one of the two enum strings,
  which the casts leave as they are; other shapes never get this far and are answered
  here as a failed cast.
\<close>

definition cast_string :: "jsval option \<Rightarrow> string option" where
  "cast_string x = (case x of Some (Json (JStr s)) \<Rightarrow> Some s | _ \<Rightarrow> None)"

definition cast_number :: "jsval option \<Rightarrow> real option" where
  "cast_number x = (case x of Some (Json (JNum a)) \<Rightarrow> Some a | _ \<Rightarrow> None)"

definition cast_enum :: "jsval option \<Rightarrow> etype option" where
  "cast_enum x = (case x of Some (Json j) \<Rightarrow> enum_value (Some j) | _ \<Rightarrow> None)"

definition cast_date :: "runtime \<Rightarrow> jsval \<Rightarrow> timestamp option option" where
  "cast_date rt v =
     (case v of Json j \<Rightarrow> castDate rt j | DateVal t \<Rightarrow> Some (Some t) | ObjId i \<Rightarrow> None)"

definition cast_oid :: "runtime \<Rightarrow> jsval \<Rightarrow> oid option" where
  "cast_oid rt v =
     (case v of Json j \<Rightarrow> castObjectId rt j | ObjId i \<Rightarrow> Some i | DateVal t \<Rightarrow> None)"

text \<open>
  \<^verbatim>\<open>new expenseModel(obj)\<close>, validated: the document mongoose builds from an object,
  the \<open>n\<close>-th of the request. The schema is strict, so only the schema's paths are read.
  An \<^verbatim>\<open>_id\<close> given in the object is kept; otherwise one is generated. A date that is
  not given stays unset (\<open>None\<close>). The userId is required.
\<close>

definition new_document :: "runtime \<Rightarrow> nat \<Rightarrow> object \<Rightarrow> error + expense" where
  "new_document rt n obj =
     (case (case map_of obj ''_id'' of None \<Rightarrow> Some (newObjectId rt n) | Some v \<Rightarrow> cast_oid rt v,
            cast_string (map_of obj ''title''),
            cast_string (map_of obj ''description''),
            cast_number (map_of obj ''amount''),
            (case map_of obj ''date'' of None \<Rightarrow> Some None | Some v \<Rightarrow> cast_date rt v),
            cast_enum (map_of obj ''type''),
            (case map_of obj ''userId'' of None \<Rightarrow> None | Some v \<Rightarrow> cast_oid rt v)) of
        (Some i, Some t, Some d, Some a, Some dt, Some ty, Some u) \<Rightarrow>
          (if u = NullId then Inl ValidationError
           else Inr \<lparr>doc_id = i, title = t, description = d, amount = a, date = dt,
                     type = ty, userId = u\<rparr>)
      | _ \<Rightarrow> Inl ValidationError)"

text \<open>The collection's unique index on \<^verbatim>\<open>_id\<close>: a second document with an id is refused.\<close>

definition insert_doc :: "expense list \<Rightarrow> expense \<Rightarrow> error + expense list" where
  "insert_doc st d =
     (if doc_id d \<in> set (map doc_id st) then Inl DuplicateKey else Inr (st @ [d]))"

text \<open>\<^verbatim>\<open>expenseModel.create(obj)\<close>: the created document and the new collection.\<close>

definition create :: "runtime \<Rightarrow> object \<Rightarrow> expense list \<Rightarrow> error + (expense \<times> expense list)" where
  "create rt obj st =
     (case new_document rt 0 obj of
        Inl e \<Rightarrow> Inl e
      | Inr d \<Rightarrow> (case insert_doc st d of Inl e \<Rightarrow> Inl e | Inr st' \<Rightarrow> Inr (d, st')))"

text \<open>
  \<^verbatim>\<open>expenseModel.insertMany(objs)\<close>, ordered: every document is built and validated
  first, and a failure there inserts nothing; then the documents are inserted in
  order up to the first one the collection refuses. The result is the error, if any,
  and the collection as it is left.
\<close>

fun build_all :: "runtime \<Rightarrow> nat \<Rightarrow> object list \<Rightarrow> error + expense list" where
  "build_all rt n [] = Inr []"
| "build_all rt n (obj # objs) =
     (case new_document rt n obj of
        Inl e \<Rightarrow> Inl e
      | Inr d \<Rightarrow> (case build_all rt (Suc n) objs of Inl e \<Rightarrow> Inl e | Inr ds \<Rightarrow> Inr (d # ds)))"

fun insert_ordered :: "expense list \<Rightarrow> expense list \<Rightarrow> error option \<times> expense list" where
  "insert_ordered st [] = (None, st)"
| "insert_ordered st (d # ds) =
     (case insert_doc st d of Inl e \<Rightarrow> (Some e, st) | Inr st' \<Rightarrow> insert_ordered st' ds)"

definition insertMany ::
  "runtime \<Rightarrow> object list \<Rightarrow> expense list \<Rightarrow> (error + expense list) \<times> expense list" where
  "insertMany rt objs st =
     (case build_all rt 0 objs of
        Inl e \<Rightarrow> (Inl e, st)
      | Inr ds \<Rightarrow>
          (case insert_ordered st ds of
             (Some e, st') \<Rightarrow> (Inl e, st')
           | (None, st') \<Rightarrow> (Inr ds, st')))"

text \<open>The filter \<^verbatim>\<open>{ _id: i, userId: u }\<close> and \<^verbatim>\<open>findOne\<close>.\<close>

definition owned :: "oid \<Rightarrow> oid \<Rightarrow> expense \<Rightarrow> bool" where
  "owned i u d = (doc_id d = i \<and> userId d = u)"

definition findOne :: "oid \<Rightarrow> oid \<Rightarrow> expense list \<Rightarrow> expense option" where
  "findOne i u st = find (owned i u) st"

text \<open>
  The update document of \<^verbatim>\<open>findOneAndUpdate\<close>, cast against the schema: the new value
  of each path the object names (\<open>None\<close>: the path is not named). Strict mode drops
  every plain key that is no path of the schema.
\<close>

record update =
  u_id :: "oid option"
  u_title :: "string option"
  u_description :: "string option"
  u_amount :: "real option"
  u_date :: "timestamp option option"
  u_type :: "etype option"
  u_userId :: "oid option"

definition cast_path :: "(jsval \<Rightarrow> 'a option) \<Rightarrow> jsval option \<Rightarrow> 'a option option" where
  "cast_path c x = (case x of None \<Rightarrow> Some None | Some v \<Rightarrow> map_option Some (c v))"

definition cast_plain :: "runtime \<Rightarrow> object \<Rightarrow> error + update" where
  "cast_plain rt obj =
     (case (cast_path (cast_oid rt) (map_of obj ''_id''),
            cast_path (\<lambda>v. cast_string (Some v)) (map_of obj ''title''),
            cast_path (\<lambda>v. cast_string (Some v)) (map_of obj ''description''),
            cast_path (\<lambda>v. cast_number (Some v)) (map_of obj ''amount''),
            cast_path (cast_date rt) (map_of obj ''date''),
            cast_path (\<lambda>v. cast_enum (Some v)) (map_of obj ''type''),
            cast_path (cast_oid rt) (map_of obj ''userId'')) of
        (Some i, Some t, Some d, Some a, Some dt, Some ty, Some u) \<Rightarrow>
          Inr \<lparr>u_id = i, u_title = t, u_description = d, u_amount = a, u_date = dt,
               u_type = ty, u_userId = u\<rparr>
      | _ \<Rightarrow> Inl CastError)"

definition apply_update :: "update \<Rightarrow> expense \<Rightarrow> expense" where
  "apply_update u d =
     \<lparr>doc_id = doc_id d,
      title = (case u_title u of None \<Rightarrow> title d | Some t \<Rightarrow> t),
      description = (case u_description u of None \<Rightarrow> description d | Some t \<Rightarrow> t),
      amount = (case u_amount u of None \<Rightarrow> amount d | Some a \<Rightarrow> a),
      date = (case u_date u of None \<Rightarrow> date d | Some dt \<Rightarrow> dt),
      type = (case u_type u of None \<Rightarrow> type d | Some ty \<Rightarrow> ty),
      userId = (case u_userId u of None \<Rightarrow> userId d | Some v \<Rightarrow> v)\<rparr>"

fun replace_first :: "('a \<Rightarrow> bool) \<Rightarrow> 'a \<Rightarrow> 'a list \<Rightarrow> 'a list" where
  "replace_first P y [] = []"
| "replace_first P y (x # xs) = (if P x then y # xs else x # replace_first P y xs)"

fun remove_first :: "('a \<Rightarrow> bool) \<Rightarrow> 'a list \<Rightarrow> 'a list" where
  "remove_first P [] = []"
| "remove_first P (x # xs) = (if P x then xs else x # remove_first P xs)"

text \<open>
  The store refuses an \<^verbatim>\<open>_id\<close> in the update that is not the document's own.
\<close>

definition run_plain :: "update \<Rightarrow> expense \<Rightarrow> error + expense" where
  "run_plain upd d =
     (if u_id upd \<noteq> None \<and> u_id upd \<noteq> Some (doc_id d) then Inl ImmutableField
      else Inr (apply_update upd d))"

definition special_key :: "string \<Rightarrow> bool" where
  "special_key k = ((k \<noteq> [] \<and> hd k = CHR ''$'') \<or> CHR ''.'' \<in> set k)"

definition cast_update :: "runtime \<Rightarrow> object \<Rightarrow> error + (expense \<Rightarrow> error + expense)" where
  "cast_update rt obj =
     (if list_ex (\<lambda>(k, v). special_key k) obj then
        (case otherUpdate rt obj of None \<Rightarrow> Inl CastError | Some f \<Rightarrow> Inr f)
      else
        (case cast_plain rt obj of Inl e \<Rightarrow> Inl e | Inr upd \<Rightarrow> Inr (run_plain upd)))"

text \<open>
  \<^verbatim>\<open>findOneAndUpdate(filter, obj, { new: true })\<close>: the update is cast first; the first
  document the filter matches is updated and returned as updated.
\<close>

definition findOneAndUpdate ::
  "runtime \<Rightarrow> oid \<Rightarrow> oid \<Rightarrow> object \<Rightarrow> expense list \<Rightarrow> error + (expense option \<times> expense list)" where
  "findOneAndUpdate rt i u obj st =
     (case cast_update rt obj of
        Inl e \<Rightarrow> Inl e
      | Inr f \<Rightarrow>
          (case findOne i u st of
             None \<Rightarrow> Inr (None, st)
           | Some d \<Rightarrow>
               (case f d of
                  Inl e \<Rightarrow> Inl e
                | Inr d' \<Rightarrow> Inr (Some d', replace_first (owned i u) d' st))))"

definition findOneAndDelete :: "oid \<Rightarrow> oid \<Rightarrow> expense list \<Rightarrow> expense option \<times> expense list" where
  "findOneAndDelete i u st = (findOne i u st, remove_first (owned i u) st)"

text \<open>\<^verbatim>\<open>deleteMany({ _id: { $in: ids }, userId: u })\<close>: the count and what is left.\<close>

definition in_ids :: "oid list \<Rightarrow> oid \<Rightarrow> expense \<Rightarrow> bool" where
  "in_ids ids u d = (doc_id d \<in> set ids \<and> userId d = u)"

definition deleteMany :: "oid list \<Rightarrow> oid \<Rightarrow> expense list \<Rightarrow> nat \<times> expense list" where
  "deleteMany ids u st =
     (length (filter (in_ids ids u) st), filter (\<lambda>d. \<not> in_ids ids u d) st)"

text \<open>The casts of a list of id strings; one failure fails the query.\<close>

fun cast_ids :: "runtime \<Rightarrow> json list \<Rightarrow> oid list option" where
  "cast_ids rt [] = Some []"
| "cast_ids rt (j # js) =
     (case castObjectId rt j of
        None \<Rightarrow> None
      | Some i \<Rightarrow> (case cast_ids rt js of None \<Rightarrow> None | Some is \<Rightarrow> Some (i # is)))"

text \<open>
  \<^verbatim>\<open>find(filter).sort({ amount: -1 }).limit(l)\<close>. The order among equal amounts is
  the store's choice; the model keeps the insertion order there.
\<close>

definition top_filter :: "oid \<Rightarrow> etype option \<Rightarrow> expense \<Rightarrow> bool" where
  "top_filter u ty d = (userId d = u \<and> (case ty of None \<Rightarrow> True | Some t \<Rightarrow> type d = t))"

definition sort_amount_desc :: "expense list \<Rightarrow> expense list" where
  "sort_amount_desc ds = sort_key (\<lambda>d. - amount d) ds"

definition limit :: "runtime \<Rightarrow> real \<Rightarrow> expense list \<Rightarrow> expense list option" where
  "limit rt l ds =
     (if l = of_int \<lfloor>l\<rfloor> then Some (take (nat \<lfloor>l\<rfloor>) ds)
      else map_option (\<lambda>n. take n ds) (fractionalLimit rt l))"

text \<open>
  Double arithmetic. A whole number of absolute value at most \<open>2^53\<close> is a double, so
  a result that is one is exact; any other result is the runtime's rounding of the
  exact value. Signed zeros are not told apart.
\<close>

definition small_int :: "real \<Rightarrow> bool" where
  "small_int r = (r = of_int \<lfloor>r\<rfloor> \<and> \<bar>r\<bar> \<le> 9007199254740992)"

definition to_double :: "runtime \<Rightarrow> real \<Rightarrow> jsnum" where
  "to_double rt r = (if small_int r then Fin r else nearest rt r)"

text \<open>JavaScript's \<^verbatim>\<open>a - b\<close>: the exact difference of two finite doubles, rounded.\<close>

definition js_minus :: "runtime \<Rightarrow> jsnum \<Rightarrow> jsnum \<Rightarrow> jsnum" where
  "js_minus rt a b =
     (case a of
        NaN \<Rightarrow> NaN
      | PosInf \<Rightarrow> (case b of NaN \<Rightarrow> NaN | PosInf \<Rightarrow> NaN | _ \<Rightarrow> PosInf)
      | NegInf \<Rightarrow> (case b of NaN \<Rightarrow> NaN | NegInf \<Rightarrow> NaN | _ \<Rightarrow> NegInf)
      | Fin x \<Rightarrow> (case b of NaN \<Rightarrow> NaN | PosInf \<Rightarrow> NegInf | NegInf \<Rightarrow> PosInf
                   | Fin y \<Rightarrow> to_double rt (x - y)))"

text \<open>
  The store's \<^verbatim>\<open>$sum\<close> and \<^verbatim>\<open>$avg\<close>. When the numbers are whole and the sum of
  their absolute values is at most \<open>2^53\<close>, every partial sum in any order is a double
  and the sum is exact; the average is exact when it is such a whole number too.
  Otherwise the result is the runtime's.
\<close>

definition exact_sum :: "real list \<Rightarrow> bool" where
  "exact_sum xs = (list_all small_int xs \<and> sum_list (map abs xs) \<le> 9007199254740992)"

definition store_sum :: "runtime \<Rightarrow> real list \<Rightarrow> jsnum" where
  "store_sum rt xs = (if exact_sum xs then Fin (sum_list xs) else sum_store rt xs)"

definition store_avg :: "runtime \<Rightarrow> real list \<Rightarrow> jsnum" where
  "store_avg rt xs =
     (if exact_sum xs \<and> xs \<noteq> [] \<and> small_int (sum_list xs / real (length xs))
      then Fin (sum_list xs / real (length xs)) else avg_store rt xs)"

text \<open>
  The aggregation of \<^verbatim>\<open>GET /stats/summary\<close>: \<^verbatim>\<open>$match\<close> on the owner and the date
  range (a document without a date is in no range), then \<^verbatim>\<open>$group\<close> by type with
  the sum, the count and the average. A type with no document has no group; the
  groups are listed income first (the store promises no order).
\<close>

definition in_range :: "timestamp option \<Rightarrow> timestamp option \<Rightarrow> expense \<Rightarrow> bool" where
  "in_range s e d =
     (if s = None \<and> e = None then True
      else (case date d of
              None \<Rightarrow> False
            | Some t \<Rightarrow> (case s of None \<Rightarrow> True | Some a \<Rightarrow> a \<le> t)
                       \<and> (case e of None \<Rightarrow> True | Some b \<Rightarrow> t \<le> b)))"

definition summary_match :: "oid \<Rightarrow> timestamp option \<Rightarrow> timestamp option \<Rightarrow> expense \<Rightarrow> bool" where
  "summary_match u s e d = (userId d = u \<and> in_range s e d)"

record group_row =
  group_id :: etype
  total :: jsnum
  count_g :: nat
  average :: jsnum

definition group_of :: "runtime \<Rightarrow> etype \<Rightarrow> expense list \<Rightarrow> group_row list" where
  "group_of rt t ds =
     (let g = filter (\<lambda>d. type d = t) ds in
      if g = [] then []
      else [\<lparr>group_id = t, total = store_sum rt (map amount g), count_g = length g,
              average = store_avg rt (map amount g)\<rparr>])"

definition aggregate ::
  "runtime \<Rightarrow> oid \<Rightarrow> timestamp option \<Rightarrow> timestamp option \<Rightarrow> expense list \<Rightarrow> group_row list" where
  "aggregate rt u s e st =
     (let ds = filter (summary_match u s e) st in group_of rt Income ds @ group_of rt Expense ds)"

section \<open>The handlers\<close>

text \<open>
  A handler maps the caller, the request and the collection to the response and the
  collection it leaves. A response is a status and a JSON body; the bodies the
  handlers build are the constructors of \<open>body\<close>:
  \<^item> \<open>Invalid m is\<close>: \<^verbatim>\<open>{ message: m, error: parsedata.error }\<close>;
  \<^item> \<open>Failed m e\<close>: \<^verbatim>\<open>{ message: m, error }\<close> of a \<^verbatim>\<open>catch\<close> branch;
  \<^item> \<open>Message m\<close>: \<^verbatim>\<open>{ message: m }\<close>;
  \<^item> \<open>MessageExpense m d\<close>: \<^verbatim>\<open>{ message: m, expense: d }\<close>;
  \<^item> \<open>ExpenseOnly d\<close>: \<^verbatim>\<open>{ expense: d }\<close>;
  \<^item> \<open>Expenses ds\<close>: \<^verbatim>\<open>{ expenses: ds }\<close>;
  \<^item> \<open>Added ds\<close>: \<^verbatim>\<open>{ message: `${ds.length} expenses added successfully`, expenses: ds }\<close>;
  \<^item> \<open>Deleted n\<close>: \<^verbatim>\<open>{ message: `${n} expenses deleted successfully`, deletedCount: n }\<close>;
  \<^item> \<open>Summary s\<close>: \<^verbatim>\<open>{ summary: s }\<close>.
  A failure of the store other than the ones modelled (a lost connection) is outside
  the model.
\<close>

record summary =
  totalIncome :: jsnum
  totalExpenses :: jsnum
  balance :: jsnum
  breakdown :: "group_row list"

datatype body =
    Invalid string "issue list"
  | Failed string error
  | Message string
  | MessageExpense string expense
  | ExpenseOnly expense
  | Expenses "expense list"
  | Added "expense list"
  | Deleted nat
  | Summary summary

record response =
  status :: nat
  body :: body

text \<open>
  \<^verbatim>\<open>const { title, description, amount, date, type } = req.body\<close>, as the properties
  of the object literal handed to \<^verbatim>\<open>create\<close>; a property that is \<^verbatim>\<open>undefined\<close>
  is one mongoose does not see.
\<close>

definition destructure :: "json \<Rightarrow> string list \<Rightarrow> object" where
  "destructure j ks = List.map_filter (\<lambda>k. map_option (\<lambda>v. (k, Json v)) (js_get j k)) ks"

text \<open>\<^verbatim>\<open>expenseRouter.post('/add', ...)\<close>\<close>

definition post_add ::
  "runtime \<Rightarrow> oid \<Rightarrow> json \<Rightarrow> expense list \<Rightarrow> response \<times> expense list" where
  "post_add rt caller reqbody st =
     (if expense_schema rt [] (Some reqbody) \<noteq> [] then
        (\<lparr>status = 400,
          body = Invalid ''Invalid data'' (expense_schema rt [] (Some reqbody))\<rparr>, st)
      else
        (case create rt
                (destructure reqbody [''title'', ''description'', ''amount'', ''date'', ''type'']
                 @ [(''userId'', ObjId caller)]) st of
           Inr (expense, st') \<Rightarrow>
             (\<lparr>status = 201, body = MessageExpense ''Expense added successfully'' expense\<rparr>, st')
         | Inl error \<Rightarrow>
             (\<lparr>status = 500, body = Failed ''Error adding expense'' error\<rparr>, st)))"

text \<open>
  \<^verbatim>\<open>expenseRouter.post('/add/bulk', ...)\<close>; \<open>AList.update\<close> is the object literal
  \<^verbatim>\<open>{ ...expense, userId: req.user._id }\<close>, where the later property wins.
\<close>

definition expensesWithUserId :: "oid \<Rightarrow> json list \<Rightarrow> object list" where
  "expensesWithUserId caller expenses =
     map (\<lambda>expense. AList.update ''userId'' (ObjId caller) (spread expense)) expenses"

definition post_add_bulk ::
  "runtime \<Rightarrow> oid \<Rightarrow> json \<Rightarrow> expense list \<Rightarrow> response \<times> expense list" where
  "post_add_bulk rt caller reqbody st =
     (if bulk_schema rt reqbody \<noteq> [] then
        (\<lparr>status = 400, body = Invalid ''Invalid data'' (bulk_schema rt reqbody)\<rparr>, st)
      else
        (case insertMany rt
                (expensesWithUserId caller
                   (case js_get reqbody ''expenses'' of Some (JArr es) \<Rightarrow> es | _ \<Rightarrow> [])) st of
           (Inr createdExpenses, st') \<Rightarrow> (\<lparr>status = 201, body = Added createdExpenses\<rparr>, st')
         | (Inl error, st') \<Rightarrow>
             (\<lparr>status = 500, body = Failed ''Error adding expenses'' error\<rparr>, st')))"

text \<open>\<^verbatim>\<open>expenseRouter.get('/top', ...)\<close>\<close>

definition get_top ::
  "runtime \<Rightarrow> oid \<Rightarrow> json \<Rightarrow> expense list \<Rightarrow> response \<times> expense list" where
  "get_top rt caller query st =
     (case top_query rt query of
        Inl is \<Rightarrow> (\<lparr>status = 400, body = Invalid ''Invalid query parameters'' is\<rparr>, st)
      | Inr (l, ty) \<Rightarrow>
          (case limit rt l (sort_amount_desc (filter (top_filter caller ty) st)) of
             Some expenses \<Rightarrow> (\<lparr>status = 200, body = Expenses expenses\<rparr>, st)
           | None \<Rightarrow>
               (\<lparr>status = 500, body = Failed ''Error fetching top expenses'' QueryError\<rparr>, st)))"

text \<open>\<^verbatim>\<open>expenseRouter.post('/duplicate/:id', ...)\<close>\<close>

definition post_duplicate ::
  "runtime \<Rightarrow> oid \<Rightarrow> string \<Rightarrow> expense list \<Rightarrow> response \<times> expense list" where
  "post_duplicate rt caller idstr st =
     (case castObjectId rt (JStr idstr) of
        None \<Rightarrow> (\<lparr>status = 500, body = Failed ''Error duplicating expense'' CastError\<rparr>, st)
      | Some i \<Rightarrow>
          (case findOne i caller st of
             None \<Rightarrow> (\<lparr>status = 404, body = Message ''Expense not found''\<rparr>, st)
           | Some originalExpense \<Rightarrow>
               (case create rt
                       [(''title'', Json (JStr (title originalExpense @ '' (Copy)''))),
                        (''description'', Json (JStr (description originalExpense))),
                        (''amount'', Json (JNum (amount originalExpense))),
                        (''date'', DateVal (now rt)),
                        (''type'', Json (JStr (case type originalExpense of
                                                  Income \<Rightarrow> ''income'' | Expense \<Rightarrow> ''expense''))),
                        (''userId'', ObjId caller)] st of
                  Inr (duplicateExpense, st') \<Rightarrow>
                    (\<lparr>status = 201,
                      body = MessageExpense ''Expense duplicated successfully'' duplicateExpense\<rparr>,
                     st')
                | Inl error \<Rightarrow>
                    (\<lparr>status = 500, body = Failed ''Error duplicating expense'' error\<rparr>, st))))"

text \<open>\<^verbatim>\<open>expenseRouter.delete('/bulk', ...)\<close>\<close>

definition delete_bulk ::
  "runtime \<Rightarrow> oid \<Rightarrow> json \<Rightarrow> expense list \<Rightarrow> response \<times> expense list" where
  "delete_bulk rt caller reqbody st =
     (if bulk_delete_schema reqbody \<noteq> [] then
        (\<lparr>status = 400, body = Invalid ''Invalid data'' (bulk_delete_schema reqbody)\<rparr>, st)
      else
        (case cast_ids rt (case js_get reqbody ''expenseIds'' of Some (JArr es) \<Rightarrow> es | _ \<Rightarrow> []) of
           None \<Rightarrow> (\<lparr>status = 500, body = Failed ''Error deleting expenses'' CastError\<rparr>, st)
         | Some expenseIds \<Rightarrow>
             (\<lparr>status = 200, body = Deleted (fst (deleteMany expenseIds caller st))\<rparr>,
              snd (deleteMany expenseIds caller st))))"

text \<open>\<^verbatim>\<open>expenseRouter.get('/:id', ...)\<close>\<close>

definition get_by_id ::
  "runtime \<Rightarrow> oid \<Rightarrow> string \<Rightarrow> expense list \<Rightarrow> response \<times> expense list" where
  "get_by_id rt caller idstr st =
     (case castObjectId rt (JStr idstr) of
        None \<Rightarrow> (\<lparr>status = 500, body = Failed ''Error fetching expense'' CastError\<rparr>, st)
      | Some i \<Rightarrow>
          (case findOne i caller st of
             None \<Rightarrow> (\<lparr>status = 404, body = Message ''Expense not found''\<rparr>, st)
           | Some expense \<Rightarrow> (\<lparr>status = 200, body = ExpenseOnly expense\<rparr>, st)))"

text \<open>
  \<^verbatim>\<open>expenseRouter.put('/:id', ...)\<close>: the update handed to the store is
  \<^verbatim>\<open>req.body\<close> itself, not the parsed data.
\<close>

definition put_by_id ::
  "runtime \<Rightarrow> oid \<Rightarrow> string \<Rightarrow> json \<Rightarrow> expense list \<Rightarrow> response \<times> expense list" where
  "put_by_id rt caller idstr reqbody st =
     (if update_schema rt reqbody \<noteq> [] then
        (\<lparr>status = 400, body = Invalid ''Invalid data'' (update_schema rt reqbody)\<rparr>, st)
      else
        (case castObjectId rt (JStr idstr) of
           None \<Rightarrow> (\<lparr>status = 500, body = Failed ''Error updating expense'' CastError\<rparr>, st)
         | Some i \<Rightarrow>
             (case findOneAndUpdate rt i caller (spread reqbody) st of
                Inl error \<Rightarrow>
                  (\<lparr>status = 500, body = Failed ''Error updating expense'' error\<rparr>, st)
              | Inr (None, st') \<Rightarrow> (\<lparr>status = 404, body = Message ''Expense not found''\<rparr>, st')
              | Inr (Some expense, st') \<Rightarrow>
                  (\<lparr>status = 200, body = MessageExpense ''Expense updated successfully'' expense\<rparr>,
                   st'))))"

text \<open>\<^verbatim>\<open>expenseRouter.delete('/:id', ...)\<close>\<close>

definition delete_by_id ::
  "runtime \<Rightarrow> oid \<Rightarrow> string \<Rightarrow> expense list \<Rightarrow> response \<times> expense list" where
  "delete_by_id rt caller idstr st =
     (case castObjectId rt (JStr idstr) of
        None \<Rightarrow> (\<lparr>status = 500, body = Failed ''Error deleting expense'' CastError\<rparr>, st)
      | Some i \<Rightarrow>
          (case findOneAndDelete i caller st of
             (None, st') \<Rightarrow> (\<lparr>status = 404, body = Message ''Expense not found''\<rparr>, st')
           | (Some expense, st') \<Rightarrow>
               (\<lparr>status = 200, body = Message ''Expense deleted successfully''\<rparr>, st')))"

text \<open>
  \<^verbatim>\<open>expenseRouter.get('/stats/summary', ...)\<close>; \<open>or_zero\<close> is
  \<^verbatim>\<open>summary.find(s => s._id === t)?.total || 0\<close>, where \<^verbatim>\<open>NaN\<close> and 0 are the
  numbers that are falsy.
\<close>

definition or_zero :: "etype \<Rightarrow> group_row list \<Rightarrow> jsnum" where
  "or_zero t rows =
     (case find (\<lambda>s. group_id s = t) rows of
        None \<Rightarrow> Fin 0
      | Some s \<Rightarrow> (if total s = NaN \<or> total s = Fin 0 then Fin 0 else total s))"

definition get_stats_summary ::
  "runtime \<Rightarrow> oid \<Rightarrow> json \<Rightarrow> expense list \<Rightarrow> response \<times> expense list" where
  "get_stats_summary rt caller query st =
     (case summary_query rt query of
        Inl is \<Rightarrow> (\<lparr>status = 400, body = Invalid ''Invalid query parameters'' is\<rparr>, st)
      | Inr (startDate, endDate) \<Rightarrow>
          (let rows = aggregate rt caller startDate endDate st in
           (\<lparr>status = 200,
             body = Summary \<lparr>totalIncome = or_zero Income rows,
                             totalExpenses = or_zero Expense rows,
                             balance = js_minus rt (or_zero Income rows) (or_zero Expense rows),
                             breakdown = rows\<rparr>\<rparr>, st)))"

section \<open>The payloads a creation must reject\<close>

text \<open>
  An amount that is a number and not positive; a type that is not one of the two
  enum strings (a missing type included).
\<close>

definition nonpositive_amount :: "json \<Rightarrow> bool" where
  "nonpositive_amount j = (case js_get j ''amount'' of Some (JNum a) \<Rightarrow> a \<le> 0 | _ \<Rightarrow> False)"

definition unknown_type :: "json \<Rightarrow> bool" where
  "unknown_type j = (case j of JObj kvs \<Rightarrow> enum_value (map_of kvs ''type'') = None | _ \<Rightarrow> False)"

section \<open>Sample data\<close>

text \<open>
  A runtime and a few documents for the examples. The sample runtime reads the numbers
  \<^verbatim>\<open>"2"\<close> and \<^verbatim>\<open>"0.5"\<close> from query strings, takes a number as a date (its
  milliseconds), casts a string of 24 hexadecimal digits to an ObjectId, refuses
  fractional limits and special update keys, and does not round.
\<close>

definition hex24 :: "string \<Rightarrow> bool" where
  "hex24 s = (length s = 24 \<and> list_all (\<lambda>c. c \<in> set ''0123456789abcdef'') s)"

definition sample_runtime :: runtime where
  "sample_runtime =
     \<lparr>Number_js = (\<lambda>j. case j of
                          JNum r \<Rightarrow> Fin r
                        | JStr s \<Rightarrow> (if s = ''2'' then Fin 2
                                    else if s = ''0.5'' then Fin (1 / 2) else NaN)
                        | _ \<Rightarrow> NaN),
      Date_js = (\<lambda>j. case j of JNum r \<Rightarrow> Some \<lfloor>r\<rfloor> | _ \<Rightarrow> None),
      castDate = (\<lambda>j. case j of JNum r \<Rightarrow> Some (Some \<lfloor>r\<rfloor>) | JNull \<Rightarrow> Some None | _ \<Rightarrow> None),
      castObjectId = (\<lambda>j. case j of
                             JStr s \<Rightarrow> (if hex24 s then Some (ObjectId s) else None)
                           | JNull \<Rightarrow> Some NullId
                           | _ \<Rightarrow> None),
      fractionalLimit = (\<lambda>l. None),
      otherUpdate = (\<lambda>obj. None),
      nearest = (\<lambda>r. Fin r),
      sum_store = (\<lambda>xs. Fin (sum_list xs)),
      avg_store = (\<lambda>xs. Fin (sum_list xs / real (length xs))),
      newObjectId = (\<lambda>n. ObjectId (''f0000000000000000000000'' @ [if n = 0 then CHR ''0'' else CHR ''1''])),
      now = 1000\<rparr>"

text \<open>
  The sample runtime with the one rounding the example of a large income needs: the
  doubles next to \<open>10^16\<close> are 2 apart, and \<open>10^16 - 0.5\<close> rounds to \<open>10^16\<close>.
\<close>

definition rounding_runtime :: runtime where
  "rounding_runtime =
     sample_runtime\<lparr>nearest := (\<lambda>r. if r = 10000000000000000 - 1 / 2
                                     then Fin 10000000000000000 else Fin r)\<rparr>"

definition id_alice :: string where
  "id_alice = ''a00000000000000000000001''"

definition id_bob :: string where
  "id_bob = ''b00000000000000000000002''"

definition alice :: oid where
  "alice = ObjectId id_alice"

definition bob :: oid where
  "bob = ObjectId id_bob"

definition id_A :: string where
  "id_A = ''00000000000000000000000a''"

definition id_B :: string where
  "id_B = ''00000000000000000000000b''"

definition id_C :: string where
  "id_C = ''00000000000000000000000c''"

definition rent :: expense where
  "rent = \<lparr>doc_id = ObjectId id_A, title = ''Rent'', description = ''flat'', amount = 1000,
           date = Some 5, type = Expense, userId = alice\<rparr>"

definition salary :: expense where
  "salary = \<lparr>doc_id = ObjectId id_B, title = ''Salary'', description = ''job'', amount = 100,
             date = Some 7, type = Income, userId = bob\<rparr>"

text \<open>An entry of alice's with a one-digit id, a type and an amount.\<close>

definition entry :: "char \<Rightarrow> etype \<Rightarrow> real \<Rightarrow> expense" where
  "entry c t a = \<lparr>doc_id = ObjectId (''eeeeeeeeeeeeeeeeeeeeeee'' @ [c]), title = ''Item'',
                  description = ''thing'', amount = a, date = Some 5, type = t, userId = alice\<rparr>"

text \<open>
  Alice's entries dated 2, 6, 7, 1 and without a date, with an entry of bob's among
  them; a range from 2 to 6 holds the first and the third.
\<close>

definition ledger :: "expense list" where
  "ledger =
     [(entry CHR ''1'' Income 100)\<lparr>date := Some 2\<rparr>, salary,
      (entry CHR ''2'' Expense 40)\<lparr>date := Some 6\<rparr>,
      (entry CHR ''3'' Expense 999)\<lparr>date := Some 7\<rparr>,
      (entry CHR ''4'' Income 7)\<lparr>date := Some 1\<rparr>,
      (entry CHR ''5'' Income 3)\<lparr>date := None\<rparr>]"

definition sample_payload :: json where
  "sample_payload =
     JObj [(''title'', JStr ''Lunch''), (''description'', JStr ''noodles''),
           (''amount'', JNum 12), (''date'', JNum 3), (''type'', JStr ''expense''),
           (''userId'', JStr id_bob)]"

definition bad_payload :: json where
  "bad_payload =
     JObj [(''title'', JStr ''Gift''), (''description'', JStr ''none''),
           (''amount'', JNum 0), (''date'', JNum 3), (''type'', JStr ''gift'')]"

definition sample_bulk_payload :: json where
  "sample_bulk_payload = JObj [(''expenses'', JArr [sample_payload, sample_payload])]"

definition bad_bulk_payload :: json where
  "bad_bulk_payload = JObj [(''expenses'', JArr [sample_payload, bad_payload])]"

section \<open>Evaluation\<close>

lemmas schema_defs =
  expense_schema_def bulk_schema_def bulk_delete_schema_def update_schema_def top_query_def
  summary_query_def z_array_1_100_def z_string_def z_string_min1_def z_number_positive_def
  z_coerce_date_def coerce_date_def z_enum_def enum_value_def z_optional_def z_limit_def
  js_get_def enumerate_eq_zip

lemmas store_defs =
  create_def new_document_def destructure_def List.map_filter_simps cast_string_def
  cast_number_def cast_enum_def cast_date_def cast_oid_def insert_doc_def insertMany_def
  expensesWithUserId_def spread_def findOne_def owned_def findOneAndUpdate_def cast_update_def
  cast_plain_def cast_path_def run_plain_def apply_update_def special_key_def
  findOneAndDelete_def deleteMany_def in_ids_def limit_def sort_amount_desc_def top_filter_def
  aggregate_def group_of_def summary_match_def in_range_def or_zero_def small_int_def
  to_double_def js_minus_def exact_sum_def store_sum_def store_avg_def

lemmas handler_defs =
  post_add_def post_add_bulk_def get_top_def post_duplicate_def delete_bulk_def get_by_id_def
  put_by_id_def delete_by_id_def get_stats_summary_def

lemmas sample_defs =
  sample_runtime_def hex24_def id_alice_def id_bob_def alice_def bob_def id_A_def id_B_def
  id_C_def rent_def salary_def entry_def ledger_def sample_payload_def bad_payload_def
  sample_bulk_payload_def bad_bulk_payload_def

section \<open>Creation: the owner of a created record\<close>

lemma new_document_userId:
  assumes "new_document rt n obj = Inr d" and "map_of obj ''userId'' = Some (ObjId u)"
  shows "userId d = u"
  using assms
  by (auto simp: new_document_def cast_oid_def split: option.splits if_splits)

lemma map_of_destructure_userId:
  "map_of (destructure j [''title'', ''description'', ''amount'', ''date'', ''type'']
           @ [(''userId'', ObjId u)]) ''userId'' = Some (ObjId u)"
  by (simp add: destructure_def List.map_filter_simps split: option.splits)

lemma insert_doc_cases:
  "insert_doc st d = Inr st' \<Longrightarrow> st' = st @ [d]"
  by (simp add: insert_doc_def split: if_splits)

lemma post_add_created:
  assumes "expense_schema rt [] (Some reqbody) = []"
  shows "(\<exists>d. post_add rt caller reqbody st =
            (\<lparr>status = 201, body = MessageExpense ''Expense added successfully'' d\<rparr>, st @ [d])
            \<and> userId d = caller)
         \<or> (\<exists>e. post_add rt caller reqbody st =
            (\<lparr>status = 500, body = Failed ''Error adding expense'' e\<rparr>, st))"
proof (cases "create rt (destructure reqbody [''title'', ''description'', ''amount'', ''date'', ''type'']
                 @ [(''userId'', ObjId caller)]) st")
  case (Inl e)
  with assms show ?thesis by (simp add: post_add_def)
next
  case (Inr p)
  obtain d st' where p: "p = (d, st')" by (cases p)
  from Inr p have nd: "new_document rt 0 (destructure reqbody [''title'', ''description'', ''amount'', ''date'', ''type'']
                 @ [(''userId'', ObjId caller)]) = Inr d" and ins: "insert_doc st d = Inr st'"
    by (auto simp: create_def split: sum.splits)
  have "userId d = caller"
    using new_document_userId [OF nd map_of_destructure_userId] .
  moreover have "st' = st @ [d]" using ins by (rule insert_doc_cases)
  ultimately show ?thesis using assms Inr p by (simp add: post_add_def)
qed

lemma build_all_userId:
  assumes "build_all rt n objs = Inr ds"
    and "\<forall>obj\<in>set objs. map_of obj ''userId'' = Some (ObjId u)"
  shows "(\<forall>d\<in>set ds. userId d = u) \<and> length ds = length objs"
  using assms
proof (induction objs arbitrary: n ds)
  case Nil
  then show ?case by simp
next
  case (Cons obj objs)
  then show ?case
    by (auto split: sum.splits dest: new_document_userId)
qed

lemma insert_ordered_prefix:
  "insert_ordered st ds = (eo, st') \<Longrightarrow>
     \<exists>k \<le> length ds. st' = st @ take k ds \<and> (eo = None \<longrightarrow> k = length ds)"
proof (induction ds arbitrary: st)
  case Nil
  then show ?case by simp
next
  case (Cons d ds)
  show ?case
  proof (cases "insert_doc st d")
    case (Inl e)
    with Cons.prems have "st' = st" "eo = Some e" by auto
    then show ?thesis by (intro exI [of _ 0]) simp
  next
    case (Inr st1)
    then have st1: "st1 = st @ [d]" by (rule insert_doc_cases)
    from Inr Cons.prems have "insert_ordered st1 ds = (eo, st')" by simp
    from Cons.IH [OF this] obtain k where
      k: "k \<le> length ds" "st' = st1 @ take k ds" "eo = None \<longrightarrow> k = length ds" by blast
    show ?thesis
      by (intro exI [of _ "Suc k"]) (use k st1 in simp)
  qed
qed

lemma expensesWithUserId_userId:
  "\<forall>obj\<in>set (expensesWithUserId caller es). map_of obj ''userId'' = Some (ObjId caller)"
  by (simp add: expensesWithUserId_def update_conv')

lemma bulk_schema_expenses:
  assumes "bulk_schema rt reqbody = []"
  shows "\<exists>es. js_get reqbody ''expenses'' = Some (JArr es)"
proof -
  from assms obtain kvs where b: "reqbody = JObj kvs"
    by (cases reqbody) (simp_all add: bulk_schema_def)
  with assms obtain v where v: "map_of kvs ''expenses'' = Some v"
    by (cases "map_of kvs ''expenses''") (simp_all add: bulk_schema_def z_array_1_100_def)
  with assms b obtain es where "v = JArr es"
    by (cases v) (simp_all add: bulk_schema_def z_array_1_100_def)
  with b v show ?thesis by (simp add: js_get_def)
qed

lemma post_add_bulk_created:
  "\<exists>new. snd (post_add_bulk rt caller reqbody st) = st @ new
      \<and> (\<forall>d\<in>set new. userId d = caller)
      \<and> (status (fst (post_add_bulk rt caller reqbody st)) = 201 \<longrightarrow>
           body (fst (post_add_bulk rt caller reqbody st)) = Added new
           \<and> (\<exists>es. js_get reqbody ''expenses'' = Some (JArr es) \<and> length new = length es))"
proof (cases "bulk_schema rt reqbody \<noteq> []")
  case True
  then show ?thesis by (intro exI [of _ "[]"]) (simp add: post_add_bulk_def)
next
  case False
  then obtain es where es: "js_get reqbody ''expenses'' = Some (JArr es)"
    using bulk_schema_expenses by blast
  define objs where "objs = expensesWithUserId caller es"
  have len: "length objs = length es" by (simp add: objs_def expensesWithUserId_def)
  show ?thesis
  proof (cases "build_all rt 0 objs")
    case (Inl e)
    with False es show ?thesis
      by (intro exI [of _ "[]"]) (simp add: post_add_bulk_def insertMany_def objs_def)
  next
    case (Inr ds)
    have u: "\<forall>obj\<in>set objs. map_of obj ''userId'' = Some (ObjId caller)"
      unfolding objs_def by (rule expensesWithUserId_userId)
    from build_all_userId [OF Inr u]
    have ds: "\<forall>d\<in>set ds. userId d = caller" and lds: "length ds = length es"
      using len by simp_all
    obtain eo st' where io: "insert_ordered st ds = (eo, st')" by (cases "insert_ordered st ds")
    from insert_ordered_prefix [OF io] obtain k where
      k: "st' = st @ take k ds" "eo = None \<longrightarrow> k = length ds" by blast
    have sub: "\<forall>d\<in>set (take k ds). userId d = caller"
      using ds by (meson in_set_takeD)
    show ?thesis
    proof (cases eo)
      case None
      with k have "st' = st @ ds" by simp
      with False Inr io None ds lds es show ?thesis
        by (intro exI [of _ ds]) (simp add: post_add_bulk_def insertMany_def objs_def)
    next
      case (Some e)
      with False Inr io k sub es show ?thesis
        by (intro exI [of _ "take k ds"]) (simp add: post_add_bulk_def insertMany_def objs_def)
    qed
  qed
qed

lemma z_string_min1_ok: "z_string_min1 p x = [] \<Longrightarrow> \<exists>s. x = Some (JStr s)"
  by (cases x rule: option.exhaust; simp add: z_string_min1_def split: json.splits)

lemma z_number_positive_ok: "z_number_positive p x = [] \<Longrightarrow> \<exists>a. x = Some (JNum a)"
  by (cases x rule: option.exhaust; simp add: z_number_positive_def split: json.splits)

lemma z_coerce_date_ok: "z_coerce_date rt p x = [] \<Longrightarrow> \<exists>j. x = Some j"
  by (cases x; simp add: z_coerce_date_def coerce_date_def)

lemma z_enum_ok: "z_enum p x = [] \<Longrightarrow> \<exists>s t. x = Some (JStr s) \<and> enum_value x = Some t"
  by (cases x rule: option.exhaust; auto simp: z_enum_def enum_value_def split: json.splits if_splits)

lemma valid_payload_document:
  assumes "expense_schema rt [] (Some reqbody) = []" and "caller \<noteq> NullId"
    and "js_get reqbody ''date'' = Some j" and "castDate rt j = Some dt"
  shows "\<exists>d. new_document rt 0
           (destructure reqbody [''title'', ''description'', ''amount'', ''date'', ''type'']
            @ [(''userId'', ObjId caller)]) = Inr d \<and> doc_id d = newObjectId rt 0"
proof -
  from assms(1) obtain kvs where b: "reqbody = JObj kvs"
    by (cases reqbody) (simp_all add: expense_schema_def)
  with assms(1) have
    "z_string_min1 [Key ''title''] (map_of kvs ''title'') = []"
    "z_string_min1 [Key ''description''] (map_of kvs ''description'') = []"
    "z_number_positive [Key ''amount''] (map_of kvs ''amount'') = []"
    "z_enum [Key ''type''] (map_of kvs ''type'') = []"
    by (simp_all add: expense_schema_def)
  then obtain t de a s ty where f:
    "map_of kvs ''title'' = Some (JStr t)" "map_of kvs ''description'' = Some (JStr de)"
    "map_of kvs ''amount'' = Some (JNum a)" "map_of kvs ''type'' = Some (JStr s)"
    "enum_value (Some (JStr s)) = Some ty"
    using z_string_min1_ok z_number_positive_ok z_enum_ok by metis
  from assms(3) b have dj: "map_of kvs ''date'' = Some j" by (simp add: js_get_def)
  show ?thesis
    using f dj assms(2,4) b
    by (simp add: new_document_def destructure_def List.map_filter_simps js_get_def
        cast_string_def cast_number_def cast_enum_def cast_date_def cast_oid_def)
qed

lemma post_add_succeeds:
  assumes "expense_schema rt [] (Some reqbody) = []" and "caller \<noteq> NullId"
    and "js_get reqbody ''date'' = Some j" and "castDate rt j = Some dt"
    and "newObjectId rt 0 \<notin> set (map doc_id st)"
  shows "status (fst (post_add rt caller reqbody st)) = 201"
proof -
  from valid_payload_document [OF assms(1-4)] obtain d where
    d: "new_document rt 0
           (destructure reqbody [''title'', ''description'', ''amount'', ''date'', ''type'']
            @ [(''userId'', ObjId caller)]) = Inr d" "doc_id d = newObjectId rt 0"
    by blast
  with assms(5) have "create rt
           (destructure reqbody [''title'', ''description'', ''amount'', ''date'', ''type'']
            @ [(''userId'', ObjId caller)]) st = Inr (d, st @ [d])"
    by (simp add: create_def insert_doc_def)
  with assms(1) show ?thesis by (simp add: post_add_def)
qed

text \<open>
  C1. A valid payload of \<^verbatim>\<open>POST /add\<close> is answered 201 with the created record
  appended to the collection, or 500 with the collection unchanged; the created record's
  userId is the caller's id. It is 201 when the store can cast the date and the
  generated id is not yet in the collection. Whatever \<^verbatim>\<open>POST /add/bulk\<close> adds to the
  collection has the caller's id as userId, and on 201 that is one record per element of
  the payload. All of it holds for every request body, so also for one that carries a
  userId of its own.
\<close>

theorem created_userId_is_caller:
  "(expense_schema rt [] (Some reqbody) = [] \<longrightarrow>
      (\<exists>d. post_add rt caller reqbody st =
              (\<lparr>status = 201, body = MessageExpense ''Expense added successfully'' d\<rparr>, st @ [d])
            \<and> userId d = caller)
      \<or> (\<exists>e. post_add rt caller reqbody st =
              (\<lparr>status = 500, body = Failed ''Error adding expense'' e\<rparr>, st)))
   \<and> (expense_schema rt [] (Some reqbody) = [] \<and> caller \<noteq> NullId
        \<and> js_get reqbody ''date'' = Some j \<and> castDate rt j = Some dt
        \<and> newObjectId rt 0 \<notin> set (map doc_id st) \<longrightarrow>
      status (fst (post_add rt caller reqbody st)) = 201)
   \<and> (\<exists>new. snd (post_add_bulk rt caller reqbody st) = st @ new
         \<and> (\<forall>d\<in>set new. userId d = caller)
         \<and> (status (fst (post_add_bulk rt caller reqbody st)) = 201 \<longrightarrow>
              body (fst (post_add_bulk rt caller reqbody st)) = Added new
              \<and> (\<exists>es. js_get reqbody ''expenses'' = Some (JArr es) \<and> length new = length es)))"
proof (intro conjI impI)
  assume "expense_schema rt [] (Some reqbody) = []"
  then show "(\<exists>d. post_add rt caller reqbody st =
              (\<lparr>status = 201, body = MessageExpense ''Expense added successfully'' d\<rparr>, st @ [d])
            \<and> userId d = caller)
      \<or> (\<exists>e. post_add rt caller reqbody st =
              (\<lparr>status = 500, body = Failed ''Error adding expense'' e\<rparr>, st))"
    by (rule post_add_created)
next
  assume "expense_schema rt [] (Some reqbody) = [] \<and> caller \<noteq> NullId
        \<and> js_get reqbody ''date'' = Some j \<and> castDate rt j = Some dt
        \<and> newObjectId rt 0 \<notin> set (map doc_id st)"
  then show "status (fst (post_add rt caller reqbody st)) = 201"
    using post_add_succeeds by blast
next
  show "\<exists>new. snd (post_add_bulk rt caller reqbody st) = st @ new
         \<and> (\<forall>d\<in>set new. userId d = caller)
         \<and> (status (fst (post_add_bulk rt caller reqbody st)) = 201 \<longrightarrow>
              body (fst (post_add_bulk rt caller reqbody st)) = Added new
              \<and> (\<exists>es. js_get reqbody ''expenses'' = Some (JArr es) \<and> length new = length es))"
    by (rule post_add_bulk_created)
qed

theorem created_userId_is_caller_witness:
  "expense_schema sample_runtime [] (Some sample_payload) = []
   \<and> js_get sample_payload ''userId'' = Some (JStr id_bob)
   \<and> map userId (snd (post_add sample_runtime alice sample_payload [salary])) = [bob, alice]
   \<and> bulk_schema sample_runtime sample_bulk_payload = []
   \<and> status (fst (post_add_bulk sample_runtime alice sample_bulk_payload [salary])) = 201
   \<and> map userId (snd (post_add_bulk sample_runtime alice sample_bulk_payload [salary]))
       = [bob, alice, alice]"
  using created_userId_is_caller [of sample_runtime sample_payload alice "[salary]"]
    created_userId_is_caller [of sample_runtime sample_bulk_payload alice "[salary]"]
  by (simp add: handler_defs schema_defs store_defs sample_defs)

section \<open>Creation: payloads that are rejected\<close>

lemma z_enum_unknown:
  "enum_value x = None \<Longrightarrow> \<exists>c. z_enum p x = [(p, c)]"
  by (auto simp: enum_value_def z_enum_def split: option.splits json.splits if_splits)

lemma expense_schema_amount:
  assumes "nonpositive_amount j"
  shows "(p @ [Key ''amount''], too_small) \<in> set (expense_schema rt p (Some j))"
proof -
  from assms obtain kvs where j: "j = JObj kvs"
    by (cases j) (simp_all add: nonpositive_amount_def js_get_def)
  with assms obtain v where v: "map_of kvs ''amount'' = Some v"
    by (cases "map_of kvs ''amount''") (simp_all add: nonpositive_amount_def js_get_def)
  with assms j obtain a where a: "map_of kvs ''amount'' = Some (JNum a)" "a \<le> 0"
    by (cases v) (simp_all add: nonpositive_amount_def js_get_def)
  then have "z_number_positive (p @ [Key ''amount'']) (map_of kvs ''amount'') = [(p @ [Key ''amount''], too_small)]"
    by (simp add: z_number_positive_def)
  with j show ?thesis by (simp add: expense_schema_def)
qed

lemma expense_schema_type:
  assumes "unknown_type j"
  shows "\<exists>c. (p @ [Key ''type''], c) \<in> set (expense_schema rt p (Some j))"
proof -
  from assms obtain kvs where j: "j = JObj kvs"
    by (cases j) (simp_all add: unknown_type_def)
  with assms have t: "enum_value (map_of kvs ''type'') = None"
    by (simp add: unknown_type_def)
  from z_enum_unknown [OF t] obtain c where
    "z_enum (p @ [Key ''type'']) (map_of kvs ''type'') = [(p @ [Key ''type''], c)]" by blast
  with j show ?thesis by (auto simp: expense_schema_def)
qed

lemma z_array_element:
  assumes "i < length es" and "x \<in> set (element (p @ [Idx i]) (Some (es ! i)))"
  shows "x \<in> set (z_array_1_100 element p (Some (JArr es)))"
proof -
  from assms(1) have "(i, es ! i) \<in> set (enumerate 0 es)"
    by (simp add: in_set_enumerate_eq)
  with assms(2) show ?thesis
    by (force simp: z_array_1_100_def)
qed

lemma bulk_schema_element:
  assumes "js_get reqbody ''expenses'' = Some (JArr es)" and "i < length es"
    and "x \<in> set (expense_schema rt [Key ''expenses'', Idx i] (Some (es ! i)))"
  shows "x \<in> set (bulk_schema rt reqbody)"
proof -
  from assms(1) obtain kvs where b: "reqbody = JObj kvs"
    by (cases reqbody) (simp_all add: js_get_def)
  with assms(1) have e: "map_of kvs ''expenses'' = Some (JArr es)"
    by (simp add: js_get_def)
  have "x \<in> set (z_array_1_100 (expense_schema rt) [Key ''expenses''] (Some (JArr es)))"
    using assms(2,3) by (intro z_array_element) simp_all
  with b e show ?thesis by (simp add: bulk_schema_def)
qed

lemma post_add_invalid:
  "x \<in> set (expense_schema rt [] (Some reqbody)) \<Longrightarrow>
     post_add rt caller reqbody st =
       (\<lparr>status = 400, body = Invalid ''Invalid data'' (expense_schema rt [] (Some reqbody))\<rparr>, st)"
  by (auto simp: post_add_def)

lemma post_add_bulk_invalid:
  "x \<in> set (bulk_schema rt reqbody) \<Longrightarrow>
     post_add_bulk rt caller reqbody st =
       (\<lparr>status = 400, body = Invalid ''Invalid data'' (bulk_schema rt reqbody)\<rparr>, st)"
  by (auto simp: post_add_bulk_def)

text \<open>
  C4. A creation request whose amount is a number not above zero, or whose type is not
  one of income and expense, is answered 400 with the list of issues as error detail,
  among them the issue of the offending field, and the collection is left as it was:
  for \<^verbatim>\<open>POST /add\<close> on the body, for \<^verbatim>\<open>POST /add/bulk\<close> on any element of the
  list.
\<close>

theorem invalid_creation_rejected:
  "(nonpositive_amount reqbody \<longrightarrow>
      post_add rt caller reqbody st =
        (\<lparr>status = 400, body = Invalid ''Invalid data'' (expense_schema rt [] (Some reqbody))\<rparr>, st)
      \<and> ([Key ''amount''], too_small) \<in> set (expense_schema rt [] (Some reqbody)))
   \<and> (unknown_type reqbody \<longrightarrow>
      post_add rt caller reqbody st =
        (\<lparr>status = 400, body = Invalid ''Invalid data'' (expense_schema rt [] (Some reqbody))\<rparr>, st)
      \<and> (\<exists>c. ([Key ''type''], c) \<in> set (expense_schema rt [] (Some reqbody))))
   \<and> (js_get reqbody ''expenses'' = Some (JArr es) \<and> i < length es \<and> nonpositive_amount (es ! i) \<longrightarrow>
      post_add_bulk rt caller reqbody st =
        (\<lparr>status = 400, body = Invalid ''Invalid data'' (bulk_schema rt reqbody)\<rparr>, st)
      \<and> ([Key ''expenses'', Idx i, Key ''amount''], too_small) \<in> set (bulk_schema rt reqbody))
   \<and> (js_get reqbody ''expenses'' = Some (JArr es) \<and> i < length es \<and> unknown_type (es ! i) \<longrightarrow>
      post_add_bulk rt caller reqbody st =
        (\<lparr>status = 400, body = Invalid ''Invalid data'' (bulk_schema rt reqbody)\<rparr>, st)
      \<and> (\<exists>c. ([Key ''expenses'', Idx i, Key ''type''], c) \<in> set (bulk_schema rt reqbody)))"
proof (intro conjI impI)
  assume a: "nonpositive_amount reqbody"
  from expense_schema_amount [OF a, of "[]" rt]
  show m: "([Key ''amount''], too_small) \<in> set (expense_schema rt [] (Some reqbody))" by simp
  show "post_add rt caller reqbody st =
        (\<lparr>status = 400, body = Invalid ''Invalid data'' (expense_schema rt [] (Some reqbody))\<rparr>, st)"
    using m by (rule post_add_invalid)
next
  assume t: "unknown_type reqbody"
  from expense_schema_type [OF t, of "[]" rt]
  show m: "\<exists>c. ([Key ''type''], c) \<in> set (expense_schema rt [] (Some reqbody))" by simp
  then show "post_add rt caller reqbody st =
        (\<lparr>status = 400, body = Invalid ''Invalid data'' (expense_schema rt [] (Some reqbody))\<rparr>, st)"
    by (auto intro: post_add_invalid)
next
  assume h: "js_get reqbody ''expenses'' = Some (JArr es) \<and> i < length es \<and> nonpositive_amount (es ! i)"
  then have "([Key ''expenses'', Idx i] @ [Key ''amount''], too_small)
               \<in> set (expense_schema rt [Key ''expenses'', Idx i] (Some (es ! i)))"
    by (intro expense_schema_amount) simp
  with h show m: "([Key ''expenses'', Idx i, Key ''amount''], too_small) \<in> set (bulk_schema rt reqbody)"
    by (auto intro: bulk_schema_element)
  show "post_add_bulk rt caller reqbody st =
        (\<lparr>status = 400, body = Invalid ''Invalid data'' (bulk_schema rt reqbody)\<rparr>, st)"
    using m by (rule post_add_bulk_invalid)
next
  assume h: "js_get reqbody ''expenses'' = Some (JArr es) \<and> i < length es \<and> unknown_type (es ! i)"
  then obtain c where "([Key ''expenses'', Idx i] @ [Key ''type''], c)
               \<in> set (expense_schema rt [Key ''expenses'', Idx i] (Some (es ! i)))"
    using expense_schema_type by blast
  with h have m: "([Key ''expenses'', Idx i, Key ''type''], c) \<in> set (bulk_schema rt reqbody)"
    by (auto intro: bulk_schema_element)
  then show "\<exists>c. ([Key ''expenses'', Idx i, Key ''type''], c) \<in> set (bulk_schema rt reqbody)" ..
  show "post_add_bulk rt caller reqbody st =
        (\<lparr>status = 400, body = Invalid ''Invalid data'' (bulk_schema rt reqbody)\<rparr>, st)"
    using m by (rule post_add_bulk_invalid)
qed

theorem invalid_creation_rejected_witness:
  "nonpositive_amount bad_payload \<and> unknown_type bad_payload
   \<and> post_add sample_runtime alice bad_payload [rent] =
       (\<lparr>status = 400,
         body = Invalid ''Invalid data''
                  [([Key ''amount''], too_small), ([Key ''type''], invalid_enum_value)]\<rparr>, [rent])
   \<and> js_get bad_bulk_payload ''expenses'' = Some (JArr [sample_payload, bad_payload])
   \<and> post_add_bulk sample_runtime alice bad_bulk_payload [rent] =
       (\<lparr>status = 400,
         body = Invalid ''Invalid data''
                  [([Key ''expenses'', Idx 1, Key ''amount''], too_small),
                   ([Key ''expenses'', Idx 1, Key ''type''], invalid_enum_value)]\<rparr>, [rent])"
  using invalid_creation_rejected [of bad_payload sample_runtime alice "[rent]"]
    invalid_creation_rejected [of bad_bulk_payload sample_runtime alice "[rent]"
      "[sample_payload, bad_payload]" 1]
  by (simp add: nonpositive_amount_def unknown_type_def handler_defs schema_defs sample_defs
      upt_rec)

section \<open>Reading, updating and deleting by id\<close>

lemma findOne_None:
  "(\<forall>d\<in>set st. doc_id d = i \<longrightarrow> userId d \<noteq> u) \<Longrightarrow> findOne i u st = None"
  by (auto simp: findOne_def find_None_iff owned_def)

lemma remove_first_none:
  "find P xs = None \<Longrightarrow> remove_first P xs = xs"
  by (induction xs) (auto split: if_splits)

lemma replace_first_same:
  "find P xs = Some x \<Longrightarrow> replace_first P x xs = xs"
  by (induction xs) (auto split: if_splits)

lemma update_schema_empty: "update_schema rt (JObj []) = []"
  by (simp add: update_schema_def z_optional_def)

lemma cast_update_empty: "cast_update rt (spread (JObj [])) = Inr (run_plain
    \<lparr>u_id = None, u_title = None, u_description = None, u_amount = None, u_date = None,
     u_type = None, u_userId = None\<rparr>)"
  by (simp add: cast_update_def spread_def cast_plain_def cast_path_def)

lemma run_plain_empty: "run_plain
    \<lparr>u_id = None, u_title = None, u_description = None, u_amount = None, u_date = None,
     u_type = None, u_userId = None\<rparr> d = Inr d"
  by (simp add: run_plain_def apply_update_def)

text \<open>
  C2, as amended. Take a well-formed id that no document of the caller's has: the
  document is absent or another user's. Then \<^verbatim>\<open>GET /:id\<close> and \<^verbatim>\<open>DELETE /:id\<close>
  answer 404 with the body \<^verbatim>\<open>{ message: "Expense not found" }\<close> and leave the
  collection as it was. \<^verbatim>\<open>PUT /:id\<close> answers 400 when the body fails validation, 500
  when the store cannot cast the update, and the same 404 otherwise. None of the three
  responses depends on the collection, so the two cases cannot be told apart.
\<close>

theorem not_owned_is_not_found:
  assumes "castObjectId rt (JStr idstr) = Some i"
    and "\<forall>d\<in>set st. doc_id d = i \<longrightarrow> userId d \<noteq> caller"
  shows "get_by_id rt caller idstr st =
           (\<lparr>status = 404, body = Message ''Expense not found''\<rparr>, st)
         \<and> delete_by_id rt caller idstr st =
           (\<lparr>status = 404, body = Message ''Expense not found''\<rparr>, st)
         \<and> put_by_id rt caller idstr reqbody st =
           (if update_schema rt reqbody \<noteq> [] then
              \<lparr>status = 400, body = Invalid ''Invalid data'' (update_schema rt reqbody)\<rparr>
            else (case cast_update rt (spread reqbody) of
                    Inl e \<Rightarrow> \<lparr>status = 500, body = Failed ''Error updating expense'' e\<rparr>
                  | Inr f \<Rightarrow> \<lparr>status = 404, body = Message ''Expense not found''\<rparr>), st)"
proof -
  from assms(2) have none: "findOne i caller st = None" by (rule findOne_None)
  then have rm: "remove_first (owned i caller) st = st"
    by (simp add: findOne_def remove_first_none)
  have g: "get_by_id rt caller idstr st =
           (\<lparr>status = 404, body = Message ''Expense not found''\<rparr>, st)"
    using assms(1) none by (simp add: get_by_id_def)
  have d: "delete_by_id rt caller idstr st =
           (\<lparr>status = 404, body = Message ''Expense not found''\<rparr>, st)"
    using assms(1) none rm by (simp add: delete_by_id_def findOneAndDelete_def)
  have p: "put_by_id rt caller idstr reqbody st =
           (if update_schema rt reqbody \<noteq> [] then
              \<lparr>status = 400, body = Invalid ''Invalid data'' (update_schema rt reqbody)\<rparr>
            else (case cast_update rt (spread reqbody) of
                    Inl e \<Rightarrow> \<lparr>status = 500, body = Failed ''Error updating expense'' e\<rparr>
                  | Inr f \<Rightarrow> \<lparr>status = 404, body = Message ''Expense not found''\<rparr>), st)"
    using assms(1) none
    by (simp add: put_by_id_def findOneAndUpdate_def split: sum.splits)
  from g d p show ?thesis by simp
qed

theorem not_owned_is_not_found_witness:
  "castObjectId sample_runtime (JStr id_B) = Some (ObjectId id_B)
   \<and> castObjectId sample_runtime (JStr id_C) = Some (ObjectId id_C)
   \<and> get_by_id sample_runtime alice id_B [rent, salary] =
       (\<lparr>status = 404, body = Message ''Expense not found''\<rparr>, [rent, salary])
   \<and> get_by_id sample_runtime alice id_C [rent, salary] =
       (\<lparr>status = 404, body = Message ''Expense not found''\<rparr>, [rent, salary])
   \<and> delete_by_id sample_runtime alice id_B [rent, salary] =
       delete_by_id sample_runtime alice id_C [rent, salary]
   \<and> put_by_id sample_runtime alice id_B (JObj [(''amount'', JNum 5)]) [rent, salary] =
       (\<lparr>status = 404, body = Message ''Expense not found''\<rparr>, [rent, salary])
   \<and> put_by_id sample_runtime alice id_C (JObj [(''amount'', JNum 5)]) [rent, salary] =
       (\<lparr>status = 404, body = Message ''Expense not found''\<rparr>, [rent, salary])"
proof -
  have b: "castObjectId sample_runtime (JStr id_B) = Some (ObjectId id_B)"
    and c: "castObjectId sample_runtime (JStr id_C) = Some (ObjectId id_C)"
    by (simp_all add: sample_defs)
  have nb: "\<forall>d\<in>set [rent, salary]. doc_id d = ObjectId id_B \<longrightarrow> userId d \<noteq> alice"
    and nc: "\<forall>d\<in>set [rent, salary]. doc_id d = ObjectId id_C \<longrightarrow> userId d \<noteq> alice"
    by (simp_all add: sample_defs)
  have v: "update_schema sample_runtime (JObj [(''amount'', JNum 5)]) = []"
    by (simp add: schema_defs)
  have u: "cast_update sample_runtime (spread (JObj [(''amount'', JNum 5)])) =
             Inr (run_plain \<lparr>u_id = None, u_title = None, u_description = None,
                              u_amount = Some 5, u_date = None, u_type = None, u_userId = None\<rparr>)"
    by (simp add: cast_update_def cast_plain_def cast_path_def cast_number_def spread_def
        special_key_def)
  from not_owned_is_not_found [OF b nb, of "JObj [(''amount'', JNum 5)]"]
    not_owned_is_not_found [OF c nc, of "JObj [(''amount'', JNum 5)]"] b c
  show ?thesis by (simp add: v u)
qed

text \<open>
  The claim as stated fails for the update: with a body that does not pass validation
  the answer is 400, not 404, here for an id that is absent and for one that is another
  user's.
\<close>

theorem update_invalid_body_is_400:
  "findOne (ObjectId id_C) alice [rent, salary] = None
   \<and> status (fst (put_by_id sample_runtime alice id_C (JObj [(''amount'', JNum (- 1))])
                    [rent, salary])) = 400
   \<and> findOne (ObjectId id_B) alice [rent, salary] = None
   \<and> status (fst (put_by_id sample_runtime alice id_B (JObj [(''amount'', JNum (- 1))])
                    [rent, salary])) = 400"
  by (simp add: put_by_id_def schema_defs findOne_def owned_def sample_defs)

text \<open>
  C10. For an id the caller owns, \<^verbatim>\<open>PUT /:id\<close> with the empty object as body passes
  validation, answers 200 with the stored record, and leaves the collection, and so
  every field of the record, as it was.
\<close>

theorem empty_update_is_identity:
  assumes "castObjectId rt (JStr idstr) = Some i" and "findOne i caller st = Some d"
  shows "update_schema rt (JObj []) = []
         \<and> put_by_id rt caller idstr (JObj []) st =
             (\<lparr>status = 200, body = MessageExpense ''Expense updated successfully'' d\<rparr>, st)"
proof -
  from assms(2) have "replace_first (owned i caller) d st = st"
    by (simp add: findOne_def replace_first_same)
  with assms have "findOneAndUpdate rt i caller (spread (JObj [])) st = Inr (Some d, st)"
    by (simp add: findOneAndUpdate_def cast_update_empty run_plain_empty)
  with assms(1) show ?thesis
    by (simp add: put_by_id_def update_schema_empty)
qed

theorem empty_update_is_identity_witness:
  "castObjectId sample_runtime (JStr id_A) = Some (ObjectId id_A)
   \<and> findOne (ObjectId id_A) alice [salary, rent] = Some rent
   \<and> put_by_id sample_runtime alice id_A (JObj []) [salary, rent] =
       (\<lparr>status = 200, body = MessageExpense ''Expense updated successfully'' rent\<rparr>,
        [salary, rent])"
proof -
  have a: "castObjectId sample_runtime (JStr id_A) = Some (ObjectId id_A)"
    by (simp add: sample_defs)
  have f: "findOne (ObjectId id_A) alice [salary, rent] = Some rent"
    by (simp add: findOne_def owned_def sample_defs)
  from empty_update_is_identity [OF a f] a f show ?thesis by simp
qed

text \<open>
  C3 does not hold of the code. The handler validates \<^verbatim>\<open>req.body\<close> and then hands
  \<^verbatim>\<open>req.body\<close> itself, not the parsed data, to \<^verbatim>\<open>findOneAndUpdate\<close>. The schema is
  not strict, so a userId in the body is no issue, and userId is a path of the
  collection's schema, so it is written: the caller's record becomes another user's.
\<close>

theorem update_overwrites_userId:
  "update_schema sample_runtime (JObj [(''userId'', JStr id_bob)]) = []
   \<and> put_by_id sample_runtime alice id_A (JObj [(''userId'', JStr id_bob)]) [rent] =
       (\<lparr>status = 200,
         body = MessageExpense ''Expense updated successfully'' (rent\<lparr>userId := bob\<rparr>)\<rparr>,
        [rent\<lparr>userId := bob\<rparr>])
   \<and> userId rent = alice \<and> alice \<noteq> bob"
  by (simp add: put_by_id_def schema_defs store_defs sample_defs)

section \<open>The largest expenses\<close>

lemma z_optional_enum_ok:
  "x = None \<or> enum_value x \<noteq> None \<Longrightarrow> z_optional z_enum p x = []"
  by (auto simp: z_optional_def z_enum_def enum_value_def split: option.splits json.splits if_splits)

lemma top_query_default:
  assumes "map_of kvs ''limit'' = None"
    and "map_of kvs ''type'' = None \<or> enum_value (map_of kvs ''type'') \<noteq> None"
  shows "top_query rt (JObj kvs) = Inr (10, enum_value (map_of kvs ''type''))"
  using assms(1) z_optional_enum_ok [OF assms(2)]
  by (simp add: top_query_def z_limit_def)

lemma top_query_whole:
  assumes "map_of kvs ''limit'' = Some j" and "Number_js rt j = Fin (real n)"
    and "1 \<le> n" and "n \<le> 50"
    and "map_of kvs ''type'' = None \<or> enum_value (map_of kvs ''type'') \<noteq> None"
  shows "top_query rt (JObj kvs) = Inr (real n, enum_value (map_of kvs ''type''))"
  using assms(1-4) z_optional_enum_ok [OF assms(5)]
  by (simp add: top_query_def z_limit_def)

lemma z_limit_rejected:
  assumes "case Number_js rt j of Fin r \<Rightarrow> r \<le> 0 \<or> 50 < r | _ \<Rightarrow> True"
  shows "\<exists>c. z_limit rt p (Some j) = Inl [(p, c)]"
  using assms by (cases "Number_js rt j") (auto simp: z_limit_def)

lemma get_top_rejected:
  assumes "map_of kvs ''limit'' = Some j"
    and "case Number_js rt j of Fin r \<Rightarrow> r \<le> 0 \<or> 50 < r | _ \<Rightarrow> True"
  shows "\<exists>c is. get_top rt caller (JObj kvs) st =
           (\<lparr>status = 400, body = Invalid ''Invalid query parameters'' (([Key ''limit''], c) # is)\<rparr>, st)"
proof -
  from z_limit_rejected [OF assms(2)] obtain c where
    "z_limit rt [Key ''limit''] (Some j) = Inl [([Key ''limit''], c)]" by blast
  with assms(1) show ?thesis
    by (simp add: get_top_def top_query_def)
qed

lemma limit_whole: "limit rt (real n) ds = Some (take n ds)"
  by (simp add: limit_def)

lemma sort_amount_desc_sorted:
  "sorted_wrt (\<lambda>a b. amount b \<le> amount a) (sort_amount_desc xs)"
proof -
  have "sorted (map (\<lambda>d. - amount d) (sort_key (\<lambda>d. - amount d) xs))"
    by (rule sorted_sort_key)
  then show ?thesis
    by (simp add: sort_amount_desc_def sorted_map)
qed

lemma top_n_largest:
  assumes "res = take n (sort_amount_desc xs)"
  shows "sorted_wrt (\<lambda>a b. amount b \<le> amount a) res
         \<and> length res = min n (length xs)
         \<and> (\<exists>rest. mset (res @ rest) = mset xs
               \<and> (\<forall>a\<in>set res. \<forall>b\<in>set rest. amount b \<le> amount a))"
proof -
  define ys where "ys = sort_amount_desc xs"
  have s: "sorted_wrt (\<lambda>a b. amount b \<le> amount a) (take n ys @ drop n ys)"
    unfolding ys_def by (simp add: sort_amount_desc_sorted)
  then have 1: "sorted_wrt (\<lambda>a b. amount b \<le> amount a) (take n ys)"
    and 3: "\<forall>a\<in>set (take n ys). \<forall>b\<in>set (drop n ys). amount b \<le> amount a"
    unfolding sorted_wrt_append by auto
  have 2: "length (take n ys) = min n (length xs)"
    by (simp add: ys_def sort_amount_desc_def min.commute)
  have "mset ys = mset xs" by (simp add: ys_def sort_amount_desc_def)
  then have 4: "mset (take n ys @ drop n ys) = mset xs" by simp
  from 1 2 3 4 show ?thesis
    unfolding assms ys_def [symmetric] by blast
qed

text \<open>
  C8, as amended. The limit of \<^verbatim>\<open>GET /top\<close> is 10 when the parameter is absent. A
  limit that is no number, is not above 0 or is above 50 is answered 400, with an issue
  for the limit, and nothing changes. With a whole limit \<open>n\<close> from 1 to 50 (or the
  default) and a type that is absent or one of the two, the answer is 200 and the list
  returned is taken from the caller's documents (of that type, when one is given), is in
  descending order of amount, has \<open>n\<close> documents or all of them when there are fewer,
  and no document left out has a larger amount than one returned. What a limit between
  0 and 50 that is no whole number does is not stated.
\<close>

theorem top_n_by_amount:
  assumes "xs = filter (\<lambda>d. userId d = caller
               \<and> (case enum_value (map_of kvs ''type'') of None \<Rightarrow> True | Some t \<Rightarrow> type d = t)) st"
  shows "(((map_of kvs ''limit'' = None \<and> n = 10)
            \<or> (\<exists>j. map_of kvs ''limit'' = Some j \<and> Number_js rt j = Fin (real n)
                   \<and> 1 \<le> n \<and> n \<le> 50))
          \<and> (map_of kvs ''type'' = None \<or> enum_value (map_of kvs ''type'') \<noteq> None) \<longrightarrow>
          (\<exists>res. get_top rt caller (JObj kvs) st = (\<lparr>status = 200, body = Expenses res\<rparr>, st)
             \<and> sorted_wrt (\<lambda>a b. amount b \<le> amount a) res
             \<and> length res = min n (length xs)
             \<and> (\<exists>rest. mset (res @ rest) = mset xs
                   \<and> (\<forall>a\<in>set res. \<forall>b\<in>set rest. amount b \<le> amount a))))
         \<and> (map_of kvs ''limit'' = Some j
              \<and> (case Number_js rt j of Fin r \<Rightarrow> r \<le> 0 \<or> 50 < r | _ \<Rightarrow> True) \<longrightarrow>
            (\<exists>c is. get_top rt caller (JObj kvs) st =
               (\<lparr>status = 400,
                 body = Invalid ''Invalid query parameters'' (([Key ''limit''], c) # is)\<rparr>, st)))"
proof (intro conjI impI)
  assume h: "((map_of kvs ''limit'' = None \<and> n = 10)
            \<or> (\<exists>j. map_of kvs ''limit'' = Some j \<and> Number_js rt j = Fin (real n)
                   \<and> 1 \<le> n \<and> n \<le> 50))
          \<and> (map_of kvs ''type'' = None \<or> enum_value (map_of kvs ''type'') \<noteq> None)"
  then have ty: "map_of kvs ''type'' = None \<or> enum_value (map_of kvs ''type'') \<noteq> None" ..
  define res where "res = take n (sort_amount_desc xs)"
  from h have "(map_of kvs ''limit'' = None \<and> n = 10)
            \<or> (\<exists>j. map_of kvs ''limit'' = Some j \<and> Number_js rt j = Fin (real n)
                   \<and> 1 \<le> n \<and> n \<le> 50)" ..
  then have q: "top_query rt (JObj kvs) = Inr (real n, enum_value (map_of kvs ''type''))"
  proof
    assume "map_of kvs ''limit'' = None \<and> n = 10"
    with top_query_default [OF _ ty, of rt] show ?thesis by simp
  next
    assume "\<exists>j. map_of kvs ''limit'' = Some j \<and> Number_js rt j = Fin (real n) \<and> 1 \<le> n \<and> n \<le> 50"
    then obtain j where "map_of kvs ''limit'' = Some j" "Number_js rt j = Fin (real n)"
      "1 \<le> n" "n \<le> 50"
      by blast
    then show ?thesis using ty by (rule top_query_whole)
  qed
  have "get_top rt caller (JObj kvs) st = (\<lparr>status = 200, body = Expenses res\<rparr>, st)"
    using q by (simp add: get_top_def limit_whole res_def assms top_filter_def [abs_def])
  with top_n_largest [OF res_def]
  show "\<exists>res. get_top rt caller (JObj kvs) st = (\<lparr>status = 200, body = Expenses res\<rparr>, st)
           \<and> sorted_wrt (\<lambda>a b. amount b \<le> amount a) res
           \<and> length res = min n (length xs)
           \<and> (\<exists>rest. mset (res @ rest) = mset xs
                 \<and> (\<forall>a\<in>set res. \<forall>b\<in>set rest. amount b \<le> amount a))"
    by blast
next
  assume "map_of kvs ''limit'' = Some j
                \<and> (case Number_js rt j of Fin r \<Rightarrow> r \<le> 0 \<or> 50 < r | _ \<Rightarrow> True)"
  then show "\<exists>c is. get_top rt caller (JObj kvs) st =
                 (\<lparr>status = 400,
                   body = Invalid ''Invalid query parameters'' (([Key ''limit''], c) # is)\<rparr>, st)"
    using get_top_rejected by blast
qed

theorem top_n_by_amount_witness:
  "Number_js sample_runtime (JStr ''2'') = Fin (real 2)
   \<and> filter (\<lambda>d. userId d = alice)
        [entry CHR ''1'' Expense 5, salary, entry CHR ''2'' Expense 50, entry CHR ''3'' Expense 500]
       = [entry CHR ''1'' Expense 5, entry CHR ''2'' Expense 50, entry CHR ''3'' Expense 500]
   \<and> get_top sample_runtime alice (JObj [(''limit'', JStr ''2'')])
        [entry CHR ''1'' Expense 5, salary, entry CHR ''2'' Expense 50, entry CHR ''3'' Expense 500]
       = (\<lparr>status = 200,
           body = Expenses [entry CHR ''3'' Expense 500, entry CHR ''2'' Expense 50]\<rparr>,
          [entry CHR ''1'' Expense 5, salary, entry CHR ''2'' Expense 50,
           entry CHR ''3'' Expense 500])
   \<and> Number_js sample_runtime (JNum 51) = Fin 51
   \<and> status (fst (get_top sample_runtime alice (JObj [(''limit'', JNum 51)])
                    [entry CHR ''1'' Expense 5])) = 400
   \<and> status (fst (get_top sample_runtime alice (JObj [(''limit'', JNum 0)])
                    [entry CHR ''1'' Expense 5])) = 400"
proof -
  have n2: "Number_js sample_runtime (JStr ''2'') = Fin (real 2)"
    and n51: "Number_js sample_runtime (JNum 51) = Fin 51"
    and n0: "Number_js sample_runtime (JNum 0) = Fin 0"
    by (simp_all add: sample_runtime_def)
  have xs: "[entry CHR ''1'' Expense 5, entry CHR ''2'' Expense 50, entry CHR ''3'' Expense 500] =
            filter (\<lambda>d. userId d = alice
               \<and> (case enum_value (map_of [(''limit'', JStr ''2'')] ''type'') of
                     None \<Rightarrow> True | Some t \<Rightarrow> type d = t))
              [entry CHR ''1'' Expense 5, salary, entry CHR ''2'' Expense 50,
               entry CHR ''3'' Expense 500]"
    by (simp add: enum_value_def sample_defs)
  have f: "filter (\<lambda>d. userId d = alice)
        [entry CHR ''1'' Expense 5, salary, entry CHR ''2'' Expense 50, entry CHR ''3'' Expense 500]
       = [entry CHR ''1'' Expense 5, entry CHR ''2'' Expense 50, entry CHR ''3'' Expense 500]"
    by (simp add: sample_defs)
  have ys: "[entry CHR ''1'' Expense 5] =
            filter (\<lambda>d. userId d = alice
               \<and> (case enum_value (map_of [(''limit'', JNum 51)] ''type'') of
                     None \<Rightarrow> True | Some t \<Rightarrow> type d = t)) [entry CHR ''1'' Expense 5]"
    and zs: "[entry CHR ''1'' Expense 5] =
            filter (\<lambda>d. userId d = alice
               \<and> (case enum_value (map_of [(''limit'', JNum 0)] ''type'') of
                     None \<Rightarrow> True | Some t \<Rightarrow> type d = t)) [entry CHR ''1'' Expense 5]"
    by (simp_all add: enum_value_def sample_defs)
  have top: "get_top sample_runtime alice (JObj [(''limit'', JStr ''2'')])
        [entry CHR ''1'' Expense 5, salary, entry CHR ''2'' Expense 50, entry CHR ''3'' Expense 500]
       = (\<lparr>status = 200,
           body = Expenses [entry CHR ''3'' Expense 500, entry CHR ''2'' Expense 50]\<rparr>,
          [entry CHR ''1'' Expense 5, salary, entry CHR ''2'' Expense 50,
           entry CHR ''3'' Expense 500])"
    by (simp add: get_top_def schema_defs store_defs sample_defs)
  from top_n_by_amount [OF xs, of 2 sample_runtime "JStr ''2''"]
    top_n_by_amount [OF ys, of 1 sample_runtime "JNum 51"]
    top_n_by_amount [OF zs, of 1 sample_runtime "JNum 0"]
    n2 n51 n0 f top
  show ?thesis by auto
qed

text \<open>
  The claim as stated fails at the lower bound: the limit 0.5 is outside 1..50 and is
  not answered 400, since the schema asks for a positive number, not for a whole one.
\<close>

theorem fractional_limit_not_rejected:
  "Number_js sample_runtime (JStr ''0.5'') = Fin (1 / 2)
   \<and> top_query sample_runtime (JObj [(''limit'', JStr ''0.5'')]) = Inr (1 / 2, None)
   \<and> status (fst (get_top sample_runtime alice (JObj [(''limit'', JStr ''0.5'')])
                    [entry CHR ''1'' Expense 5, entry CHR ''2'' Expense 50,
                     entry CHR ''3'' Expense 500])) \<noteq> 400"
  by (simp add: get_top_def schema_defs limit_def sample_runtime_def)

section \<open>Bulk delete\<close>

lemma cast_ids_map:
  "map (castObjectId rt) js = map Some ids \<Longrightarrow> cast_ids rt js = Some ids"
  by (induction js arbitrary: ids) auto

lemma cast_ids_all:
  "cast_ids rt js = Some ids \<Longrightarrow> j \<in> set js \<Longrightarrow> castObjectId rt j \<noteq> None"
  by (induction js arbitrary: ids) (auto split: option.splits)

lemma cast_ids_fails:
  "\<exists>j\<in>set js. castObjectId rt j = None \<Longrightarrow> cast_ids rt js = None"
  using cast_ids_all by (cases "cast_ids rt js") blast+

lemma z_array_strings:
  assumes "1 \<le> length ss" and "length ss \<le> 100"
  shows "z_array_1_100 z_string p (Some (JArr (map JStr ss))) = []"
proof -
  have "\<forall>x\<in>set (enumerate 0 (map JStr ss)). (case x of (i, e) \<Rightarrow> z_string (p @ [Idx i]) (Some e)) = []"
    by (auto simp: in_set_enumerate_eq z_string_def)
  moreover from assms have "ss \<noteq> []" by auto
  ultimately show ?thesis
    using assms by (simp add: z_array_1_100_def)
qed

lemma bulk_delete_schema_ok:
  assumes "js_get reqbody ''expenseIds'' = Some (JArr (map JStr ss))"
    and "1 \<le> length ss" and "length ss \<le> 100"
  shows "bulk_delete_schema reqbody = []"
proof -
  from assms(1) obtain kvs where b: "reqbody = JObj kvs"
    by (cases reqbody) (simp_all add: js_get_def)
  with assms(1) have "map_of kvs ''expenseIds'' = Some (JArr (map JStr ss))"
    by (simp add: js_get_def)
  with b z_array_strings [OF assms(2,3)] show ?thesis
    by (simp add: bulk_delete_schema_def)
qed

text \<open>
  C5, as amended. Take a request of \<^verbatim>\<open>DELETE /bulk\<close> with a list of 1 to 100 id
  strings. When every one of them is a well-formed id, the answer is 200; the documents
  deleted are those whose id is in the list and whose userId is the caller's,
  deletedCount is their number, and every other document stays, so a well-formed id
  that is absent or another user's changes nothing. When one of them is not a
  well-formed id, the answer is 500 and nothing is deleted.
\<close>

theorem bulk_delete_counts_owned:
  assumes "js_get reqbody ''expenseIds'' = Some (JArr (map JStr ss))"
    and "1 \<le> length ss" and "length ss \<le> 100"
  shows "(map (castObjectId rt) (map JStr ss) = map Some ids \<longrightarrow>
            delete_bulk rt caller reqbody st =
              (\<lparr>status = 200,
                body = Deleted (length (filter (\<lambda>d. doc_id d \<in> set ids \<and> userId d = caller) st))\<rparr>,
               filter (\<lambda>d. \<not> (doc_id d \<in> set ids \<and> userId d = caller)) st))
         \<and> ((\<exists>s\<in>set ss. castObjectId rt (JStr s) = None) \<longrightarrow>
            delete_bulk rt caller reqbody st =
              (\<lparr>status = 500, body = Failed ''Error deleting expenses'' CastError\<rparr>, st))"
proof (intro conjI impI)
  have ok: "bulk_delete_schema reqbody = []"
    using assms by (rule bulk_delete_schema_ok)
  {
    assume "map (castObjectId rt) (map JStr ss) = map Some ids"
    then have "cast_ids rt (map JStr ss) = Some ids" by (rule cast_ids_map)
    then show "delete_bulk rt caller reqbody st =
              (\<lparr>status = 200,
                body = Deleted (length (filter (\<lambda>d. doc_id d \<in> set ids \<and> userId d = caller) st))\<rparr>,
               filter (\<lambda>d. \<not> (doc_id d \<in> set ids \<and> userId d = caller)) st)"
      using ok assms(1) by (simp add: delete_bulk_def deleteMany_def in_ids_def [abs_def])
  }
  {
    assume "\<exists>s\<in>set ss. castObjectId rt (JStr s) = None"
    then have "\<exists>j\<in>set (map JStr ss). castObjectId rt j = None" by auto
    then have "cast_ids rt (map JStr ss) = None" by (rule cast_ids_fails)
    then show "delete_bulk rt caller reqbody st =
              (\<lparr>status = 500, body = Failed ''Error deleting expenses'' CastError\<rparr>, st)"
      using ok assms(1) by (simp add: delete_bulk_def)
  }
qed

theorem bulk_delete_counts_owned_witness:
  "js_get (JObj [(''expenseIds'', JArr (map JStr [id_A, id_B, id_C]))]) ''expenseIds''
     = Some (JArr (map JStr [id_A, id_B, id_C]))
   \<and> map (castObjectId sample_runtime) (map JStr [id_A, id_B, id_C])
       = map Some [ObjectId id_A, ObjectId id_B, ObjectId id_C]
   \<and> delete_bulk sample_runtime alice (JObj [(''expenseIds'', JArr (map JStr [id_A, id_B, id_C]))])
        [rent, salary] = (\<lparr>status = 200, body = Deleted 1\<rparr>, [salary])
   \<and> castObjectId sample_runtime (JStr ''xyz'') = None
   \<and> delete_bulk sample_runtime alice (JObj [(''expenseIds'', JArr (map JStr [id_A, ''xyz'']))])
        [rent, salary] =
       (\<lparr>status = 500, body = Failed ''Error deleting expenses'' CastError\<rparr>, [rent, salary])"
proof -
  have g: "js_get (JObj [(''expenseIds'', JArr (map JStr [id_A, id_B, id_C]))]) ''expenseIds''
             = Some (JArr (map JStr [id_A, id_B, id_C]))"
    and g': "js_get (JObj [(''expenseIds'', JArr (map JStr [id_A, ''xyz'']))]) ''expenseIds''
             = Some (JArr (map JStr [id_A, ''xyz'']))"
    by (simp_all add: js_get_def)
  have l: "1 \<le> length [id_A, id_B, id_C]" "length [id_A, id_B, id_C] \<le> 100"
    and l': "1 \<le> length [id_A, ''xyz'']" "length [id_A, ''xyz''] \<le> 100"
    by simp_all
  have c: "map (castObjectId sample_runtime) (map JStr [id_A, id_B, id_C])
             = map Some [ObjectId id_A, ObjectId id_B, ObjectId id_C]"
    by (simp add: sample_defs)
  have x: "castObjectId sample_runtime (JStr ''xyz'') = None"
    by (simp add: sample_defs)
  then have x': "\<exists>s\<in>set [id_A, ''xyz'']. castObjectId sample_runtime (JStr s) = None"
    by simp
  from bulk_delete_counts_owned [OF g l, of sample_runtime
      "[ObjectId id_A, ObjectId id_B, ObjectId id_C]" alice "[rent, salary]"]
    bulk_delete_counts_owned [OF g' l', of sample_runtime "[]" alice "[rent, salary]"]
    g c x x'
  show ?thesis by (simp add: sample_defs)
qed

text \<open>
  The claim as stated fails for a list that holds a malformed id: the list passes the
  schema (its elements are strings), the store refuses the query, and the answer is 500
  with the caller's own document still there.
\<close>

theorem bulk_delete_malformed_id_is_500:
  "bulk_delete_schema (JObj [(''expenseIds'', JArr [JStr id_A, JStr ''xyz''])]) = []
   \<and> findOne (ObjectId id_A) alice [rent, salary] = Some rent
   \<and> delete_bulk sample_runtime alice (JObj [(''expenseIds'', JArr [JStr id_A, JStr ''xyz''])])
        [rent, salary] =
       (\<lparr>status = 500, body = Failed ''Error deleting expenses'' CastError\<rparr>, [rent, salary])"
  by (simp add: delete_bulk_def schema_defs findOne_def owned_def sample_defs upt_rec)

section \<open>Duplicating\<close>






section \<open>Summary statistics\<close>

lemma z_optional_date_ok:
  "x = None \<or> coerce_date rt x \<noteq> None \<Longrightarrow> z_optional (z_coerce_date rt) p x = []"
  by (auto simp: z_optional_def z_coerce_date_def split: option.splits)

lemma summary_query_ok:
  assumes "map_of kvs ''startDate'' = None \<or> coerce_date rt (map_of kvs ''startDate'') \<noteq> None"
    and "map_of kvs ''endDate'' = None \<or> coerce_date rt (map_of kvs ''endDate'') \<noteq> None"
  shows "summary_query rt (JObj kvs) =
           Inr (coerce_date rt (map_of kvs ''startDate''), coerce_date rt (map_of kvs ''endDate''))"
  using z_optional_date_ok [OF assms(1)] z_optional_date_ok [OF assms(2)]
  by (simp add: summary_query_def)









text \<open>
  Where a result is no double the summary carries the rounded one: an income of
  \<open>10^16\<close> and an expense of 0.5 give the balance \<open>10^16\<close>.
\<close>

lemma balance_rounds_as_doubles:
  "get_stats_summary rounding_runtime alice (JObj [])
     [entry CHR ''1'' Income 10000000000000000, entry CHR ''2'' Expense (1 / 2)] =
     (\<lparr>status = 200,
       body = Summary \<lparr>totalIncome = Fin 10000000000000000, totalExpenses = Fin (1 / 2),
                balance = Fin 10000000000000000,
                breakdown = [\<lparr>group_id = Income, total = Fin 10000000000000000, count_g = 1,
                               average = Fin 10000000000000000\<rparr>,
                             \<lparr>group_id = Expense, total = Fin (1 / 2), count_g = 1,
                               average = Fin (1 / 2)\<rparr>]\<rparr>\<rparr>,
      [entry CHR ''1'' Income 10000000000000000, entry CHR ''2'' Expense (1 / 2)])"
  by (simp add: get_stats_summary_def schema_defs store_defs sample_defs rounding_runtime_def)

text \<open>
  C9. Take a query whose startDate and endDate are each absent or a valid date. When
  no document of the caller's is in that range, \<^verbatim>\<open>GET /stats/summary\<close> answers 200
  with totalIncome, totalExpenses and balance all 0 and an empty breakdown.
\<close>

theorem empty_summary_is_zero:
  assumes "map_of kvs ''startDate'' = None \<or> coerce_date rt (map_of kvs ''startDate'') \<noteq> None"
    and "map_of kvs ''endDate'' = None \<or> coerce_date rt (map_of kvs ''endDate'') \<noteq> None"
    and "\<forall>d\<in>set st. \<not> (userId d = caller
                \<and> in_range (coerce_date rt (map_of kvs ''startDate''))
                     (coerce_date rt (map_of kvs ''endDate'')) d)"
  shows "get_stats_summary rt caller (JObj kvs) st =
           (\<lparr>status = 200,
             body = Summary \<lparr>totalIncome = Fin 0, totalExpenses = Fin 0, balance = Fin 0,
                             breakdown = []\<rparr>\<rparr>,
            st)"
proof -
  from assms(3) have "filter (summary_match caller (coerce_date rt (map_of kvs ''startDate''))
               (coerce_date rt (map_of kvs ''endDate''))) st = []"
    by (simp add: filter_empty_conv summary_match_def)
  then have "aggregate rt caller (coerce_date rt (map_of kvs ''startDate''))
               (coerce_date rt (map_of kvs ''endDate'')) st = []"
    by (simp add: aggregate_def Let_def group_of_def)
  with summary_query_ok [OF assms(1,2)] show ?thesis
    by (simp add: get_stats_summary_def or_zero_def js_minus_def to_double_def small_int_def)
qed

theorem empty_summary_is_zero_witness:
  "coerce_date sample_runtime (map_of [(''startDate'', JNum 8)] ''startDate'') = Some 8
   \<and> date salary = Some 7 \<and> userId salary = bob
   \<and> get_stats_summary sample_runtime bob (JObj [(''startDate'', JNum 8)]) [rent, salary] =
       (\<lparr>status = 200,
         body = Summary \<lparr>totalIncome = Fin 0, totalExpenses = Fin 0, balance = Fin 0,
                         breakdown = []\<rparr>\<rparr>,
        [rent, salary])"
proof -
  have c: "coerce_date sample_runtime (map_of [(''startDate'', JNum 8)] ''startDate'') = Some 8"
    "coerce_date sample_runtime (map_of [(''startDate'', JNum 8)] ''endDate'') = None"
    by (simp_all add: coerce_date_def sample_runtime_def)
  have q: "map_of [(''startDate'', JNum 8)] ''startDate'' = None
             \<or> coerce_date sample_runtime (map_of [(''startDate'', JNum 8)] ''startDate'') \<noteq> None"
    "map_of [(''startDate'', JNum 8)] ''endDate'' = None
             \<or> coerce_date sample_runtime (map_of [(''startDate'', JNum 8)] ''endDate'') \<noteq> None"
    by (simp_all add: coerce_date_def sample_runtime_def)
  have n: "\<forall>d\<in>set [rent, salary]. \<not> (userId d = bob
                \<and> in_range (coerce_date sample_runtime (map_of [(''startDate'', JNum 8)] ''startDate''))
                     (coerce_date sample_runtime (map_of [(''startDate'', JNum 8)] ''endDate'')) d)"
    by (simp add: coerce_date_def in_range_def sample_defs)
  from empty_summary_is_zero [OF q n] c show ?thesis by (simp add: salary_def bob_def)
qed

end
